theory Spec2Isabelle
  imports Main "HOL-Library.AList"
begin

section \<open>Python values used by the catalog tools\<close>

text \<open>
  A Python \<^verbatim>\<open>dict\<close> keeps its keys in insertion order: it is modelled as an association
  list with one pair per key. \<open>map_of d k\<close> is \<^verbatim>\<open>d.get(k)\<close>, \<open>AList.update k v d\<close> is
  \<^verbatim>\<open>d[k] = v\<close> (an existing key keeps its place, a new key goes last), \<open>AList.delete k d\<close>
  is \<^verbatim>\<open>del d[k]\<close> behind an \<^verbatim>\<open>if k in d\<close> guard, and \<open>length d\<close> is \<^verbatim>\<open>len(d)\<close>.
  A key that a JSON document may lack is an \<open>option\<close> field; every \<^verbatim>\<open>.get(k, default)\<close>
  of the source is a case distinction on it.
\<close>

type_synonym ('k, 'v) dict = "('k \<times> 'v) list"

datatype py_error = KeyError | EOFError

text \<open>
  Strings are lists of characters with code points below 256. On these,
  \<^verbatim>\<open>str.lower\<close> moves \<^verbatim>\<open>A-Z\<close> and the Latin-1 capitals, and \<^verbatim>\<open>str.strip\<close> removes the
  characters for which \<^verbatim>\<open>str.isspace\<close> holds from both ends.
\<close>

definition lower_char :: "char \<Rightarrow> char" where
  "lower_char c =
     (let n = (of_char c :: nat)
      in if (65 \<le> n \<and> n \<le> 90) \<or> (192 \<le> n \<and> n \<le> 222 \<and> n \<noteq> 215)
         then char_of (n + 32) else c)"

definition py_lower :: "string \<Rightarrow> string" where
  "py_lower s = map lower_char s"

definition is_space :: "char \<Rightarrow> bool" where
  "is_space c =
     (let n = (of_char c :: nat)
      in (9 \<le> n \<and> n \<le> 13) \<or> (28 \<le> n \<and> n \<le> 32) \<or> n = 133 \<or> n = 160)"

definition py_strip :: "string \<Rightarrow> string" where
  "py_strip s = rev (dropWhile is_space (rev (dropWhile is_space s)))"

text \<open>\<^verbatim>\<open>a in b\<close> on strings: \<open>a\<close> occurs in \<open>b\<close> as a contiguous block.\<close>

fun starts_with :: "string \<Rightarrow> string \<Rightarrow> bool" where
  "starts_with [] b = True"
| "starts_with (x # a) [] = False"
| "starts_with (x # a) (y # b) = (x = y \<and> starts_with a b)"

fun is_substring :: "string \<Rightarrow> string \<Rightarrow> bool" where
  "is_substring a [] = (a = [])"
| "is_substring a (y # b) = (starts_with a (y # b) \<or> is_substring a b)"

text \<open>
  \<^verbatim>\<open>int(s)\<close> on a stripped string: an optional sign and decimal digits, where single
  underscores may separate digits; \<open>None\<close> stands for \<^verbatim>\<open>ValueError\<close>.
\<close>

definition is_digit :: "char \<Rightarrow> bool" where
  "is_digit c = (let n = (of_char c :: nat) in 48 \<le> n \<and> n \<le> 57)"

fun digits_value :: "nat \<Rightarrow> string \<Rightarrow> nat option" where
  "digits_value acc [] = Some acc"
| "digits_value acc [c] =
     (if is_digit c then Some (10 * acc + (of_char c - 48)) else None)"
| "digits_value acc (c # d # cs) =
     (if is_digit c then
        (if d = CHR ''_'' then
           (case cs of [] \<Rightarrow> None
            | e # es \<Rightarrow> if is_digit e then digits_value (10 * acc + (of_char c - 48)) cs else None)
         else digits_value (10 * acc + (of_char c - 48)) (d # cs))
      else None)"

definition py_int :: "string \<Rightarrow> int option" where
  "py_int s =
     (case py_strip s of
        [] \<Rightarrow> None
      | c # cs \<Rightarrow>
          if c = CHR ''-'' then (if cs = [] then None else map_option (\<lambda>n. - int n) (digits_value 0 cs))
          else if c = CHR ''+'' then (if cs = [] then None else map_option int (digits_value 0 cs))
          else map_option int (digits_value 0 (c # cs)))"

section \<open>The four linked documents\<close>

text \<open>
  The keys the consistency core reads. A \<^verbatim>\<open>metadata\<close> field that is absent is read through
  \<^verbatim>\<open>.get(key, '')\<close> by the resolver, so it is the empty string here.
\<close>

record metadata =
  meta_track_name :: string
  meta_artists_string :: string
  meta_track_uri :: string

record song_info =
  si_metadata :: metadata
  si_playlists :: "string list option"
  si_download_status :: "string option"

text \<open>
  A playlist record can carry its member list under the key \<^verbatim>\<open>songs\<close> and under the key
  \<^verbatim>\<open>song_ids\<close>; both are kept, as the tools read and write them
  (\<open>pl_songs\<close> and \<open>pl_song_ids\<close>).
\<close>

record playlist_info =
  pl_name :: "string option"
  total_tracks :: "nat option"
  successful_downloads :: "nat option"
  pl_songs :: "string list option"
  pl_song_ids :: "string list option"
  pl_created_at :: "string option"
  pl_last_updated :: "string option"

record artist_info =
  ar_name :: "string option"
  playlist_ids :: "string list option"
  ar_created_at :: "string option"
  ar_last_updated :: "string option"

record songs_doc =
  sd_songs :: "(string, song_info) dict option"
  total_songs :: "nat option"
  sd_last_updated :: "string option"

record playlists_doc =
  pd_playlists :: "(string, playlist_info) dict option"
  total_playlists :: "nat option"
  pd_last_updated :: "string option"

record artists_doc =
  ad_artists :: "(string, artist_info) dict option"
  total_artists :: "nat option"
  ad_last_updated :: "string option"

record mapping_doc =
  md_mapping :: "(string, string list) dict option"
  md_last_updated :: "string option"

text \<open>The empty document \<^verbatim>\<open>{}\<close>, and the truth value of a document (\<^verbatim>\<open>if self.artists_db:\<close>).\<close>

definition empty_songs_doc :: songs_doc where
  "empty_songs_doc = \<lparr>sd_songs = None, total_songs = None, sd_last_updated = None\<rparr>"

definition empty_playlists_doc :: playlists_doc where
  "empty_playlists_doc = \<lparr>pd_playlists = None, total_playlists = None, pd_last_updated = None\<rparr>"

definition empty_artists_doc :: artists_doc where
  "empty_artists_doc = \<lparr>ad_artists = None, total_artists = None, ad_last_updated = None\<rparr>"

definition empty_mapping_doc :: mapping_doc where
  "empty_mapping_doc = \<lparr>md_mapping = None, md_last_updated = None\<rparr>"

definition artists_doc_truthy :: "artists_doc \<Rightarrow> bool" where
  "artists_doc_truthy d =
     (ad_artists d \<noteq> None \<or> total_artists d \<noteq> None \<or> ad_last_updated d \<noteq> None)"

definition mapping_doc_truthy :: "mapping_doc \<Rightarrow> bool" where
  "mapping_doc_truthy d = (md_mapping d \<noteq> None \<or> md_last_updated d \<noteq> None)"

text \<open>\<^verbatim>\<open>doc.get('songs', {})\<close> and its siblings.\<close>

definition songs_of :: "songs_doc \<Rightarrow> (string, song_info) dict" where
  "songs_of d = (case sd_songs d of None \<Rightarrow> [] | Some s \<Rightarrow> s)"

definition playlists_of :: "playlists_doc \<Rightarrow> (string, playlist_info) dict" where
  "playlists_of d = (case pd_playlists d of None \<Rightarrow> [] | Some p \<Rightarrow> p)"

definition artists_of :: "artists_doc \<Rightarrow> (string, artist_info) dict" where
  "artists_of d = (case ad_artists d of None \<Rightarrow> [] | Some a \<Rightarrow> a)"

definition mapping_of :: "mapping_doc \<Rightarrow> (string, string list) dict" where
  "mapping_of d = (case md_mapping d of None \<Rightarrow> [] | Some m \<Rightarrow> m)"

definition song_playlists :: "song_info \<Rightarrow> string list" where
  "song_playlists s = (case si_playlists s of None \<Rightarrow> [] | Some l \<Rightarrow> l)"

section \<open>Files, console and clock\<close>

datatype store = Songs | Playlists | Artists | Mapping

text \<open>
  The metadata folder holds one JSON file per store (\<open>None\<close>: the file does not exist) and
  the songs folder holds the audio files. \<open>write_attempts\<close> records, in order, every
  store file a tool set out to write, whether the write succeeded or raised.
\<close>

record files =
  songs_file :: "songs_doc option"
  playlists_file :: "playlists_doc option"
  artists_file :: "artists_doc option"
  mapping_file :: "mapping_doc option"
  audio_files :: "string list"
  write_attempts :: "store list"

text \<open>
  What the tools take from outside: the clock (\<^verbatim>\<open>datetime.now().isoformat()\<close>, one reading
  per operation), the store files whose \<^verbatim>\<open>open(..., 'w')\<close> raises, and the audio files whose
  \<^verbatim>\<open>unlink\<close> raises.
\<close>

record env =
  now :: string
  write_fails :: "store \<Rightarrow> bool"
  unlink_fails :: "string \<Rightarrow> bool"

section \<open>\<^verbatim>\<open>remove_playlist.py\<close>: the playlist remover\<close>

text \<open>
  A \<^verbatim>\<open>PlaylistRemover\<close> with what surrounds it: its four in-memory documents, the files on
  disk, and the lines still to be read from the console by \<^verbatim>\<open>input()\<close>.
\<close>

record remover =
  songs_db :: songs_doc
  playlists_db :: playlists_doc
  artists_db :: artists_doc
  mapping_db :: mapping_doc
  disk :: files
  console :: "string list"

datatype action = Remove | Keep

text \<open>
  \<^verbatim>\<open>load_databases\<close>, run by the constructor: a missing songs or playlists file ends the load
  with the remaining documents still empty.
\<close>

definition load_databases :: "files \<Rightarrow> string list \<Rightarrow> remover" where
  "load_databases fs inp =
     (let r0 = \<lparr>songs_db = empty_songs_doc, playlists_db = empty_playlists_doc,
                artists_db = empty_artists_doc, mapping_db = empty_mapping_doc,
                disk = fs, console = inp\<rparr>
      in (case songs_file fs of
            None \<Rightarrow> r0
          | Some s \<Rightarrow>
              (case playlists_file fs of
                 None \<Rightarrow> r0\<lparr>songs_db := s\<rparr>
               | Some p \<Rightarrow>
                   r0\<lparr>songs_db := s, playlists_db := p,
                      artists_db := (case artists_file fs of None \<Rightarrow> empty_artists_doc | Some a \<Rightarrow> a),
                      mapping_db := (case mapping_file fs of None \<Rightarrow> empty_mapping_doc | Some m \<Rightarrow> m)\<rparr>)))"

subsection \<open>\<^verbatim>\<open>find_playlist_by_name\<close>\<close>

definition name_matches :: "string \<Rightarrow> playlist_info \<Rightarrow> bool" where
  "name_matches playlist_name playlist_info =
     (let stored_name = py_lower (case pl_name playlist_info of None \<Rightarrow> [] | Some n \<Rightarrow> n);
          search_name = py_lower playlist_name
      in is_substring search_name stored_name \<or> is_substring stored_name search_name)"

definition playlist_matches :: "playlists_doc \<Rightarrow> string \<Rightarrow> (string \<times> string) list" where
  "playlist_matches db playlist_name =
     map (\<lambda>(playlist_id, playlist_info).
            (playlist_id, case pl_name playlist_info of None \<Rightarrow> ''Unknown'' | Some n \<Rightarrow> n))
         (filter (\<lambda>(playlist_id, playlist_info). name_matches playlist_name playlist_info)
            (playlists_of db))"

text \<open>
  The selection prompt shown when several playlists match: it reads lines until one is
  \<^verbatim>\<open>q\<close> or a number in range. \<^verbatim>\<open>input()\<close> raises \<^verbatim>\<open>EOFError\<close> when the console is exhausted.
\<close>

fun select_playlist ::
  "(string \<times> string) list \<Rightarrow> string list \<Rightarrow> py_error + (string option \<times> string list)" where
  "select_playlist matches [] = Inl EOFError"
| "select_playlist matches (line # rest) =
     (let choice = py_strip line
      in if py_lower choice = ''q'' then Inr (None, rest)
         else (case py_int choice of
                 None \<Rightarrow> select_playlist matches rest
               | Some choice_num \<Rightarrow>
                   if 1 \<le> choice_num \<and> choice_num \<le> int (length matches)
                   then Inr (Some (fst (matches ! nat (choice_num - 1))), rest)
                   else select_playlist matches rest))"

definition find_playlist_by_name ::
  "playlists_doc \<Rightarrow> string \<Rightarrow> string list \<Rightarrow> py_error + (string option \<times> string list)" where
  "find_playlist_by_name db playlist_name inp =
     (case playlist_matches db playlist_name of
        [] \<Rightarrow> Inr (None, inp)
      | [m] \<Rightarrow> Inr (Some (fst m), inp)
      | m # m' # ms \<Rightarrow> select_playlist (m # m' # ms) inp)"

subsection \<open>\<^verbatim>\<open>get_songs_in_playlist\<close> and \<^verbatim>\<open>remove_playlist_from_songs\<close>\<close>

definition get_songs_in_playlist :: "playlists_doc \<Rightarrow> string \<Rightarrow> string list" where
  "get_songs_in_playlist db playlist_id =
     (case map_of (playlists_of db) playlist_id of
        None \<Rightarrow> []
      | Some playlist_info \<Rightarrow> (case pl_song_ids playlist_info of None \<Rightarrow> [] | Some l \<Rightarrow> l))"

text \<open>
  The loop over \<^verbatim>\<open>song_ids\<close>. \<^verbatim>\<open>song_playlists.remove(playlist_id)\<close> works on the list held by
  the song record, so the songs dictionary changes as the loop runs; \<^verbatim>\<open>list.remove\<close> deletes
  the first occurrence (\<open>remove1\<close>).
\<close>

fun songs_loop ::
  "string \<Rightarrow> string list \<Rightarrow> (string, song_info) dict \<Rightarrow> (string, action) dict
     \<Rightarrow> (string, song_info) dict \<times> (string, action) dict" where
  "songs_loop playlist_id [] songs song_actions = (songs, song_actions)"
| "songs_loop playlist_id (song_id # rest) songs song_actions =
     (case map_of songs song_id of
        None \<Rightarrow> songs_loop playlist_id rest songs song_actions
      | Some info \<Rightarrow>
          (if playlist_id \<in> set (song_playlists info)
           then (let remaining = remove1 playlist_id (song_playlists info)
                 in songs_loop playlist_id rest
                      (AList.update song_id (info\<lparr>si_playlists := Some remaining\<rparr>) songs)
                      (AList.update song_id (if remaining = [] then Remove else Keep) song_actions))
           else songs_loop playlist_id rest songs
                  (AList.update song_id (if song_playlists info = [] then Remove else Keep)
                     song_actions)))"

definition remove_playlist_from_songs ::
  "string \<Rightarrow> string list \<Rightarrow> songs_doc \<Rightarrow> songs_doc \<times> (string, action) dict" where
  "remove_playlist_from_songs playlist_id ids db =
     (case sd_songs db of
        None \<Rightarrow> (db, [])
      | Some songs \<Rightarrow>
          (case songs_loop playlist_id ids songs [] of
             (songs', song_actions) \<Rightarrow> (db\<lparr>sd_songs := Some songs'\<rparr>, song_actions)))"

subsection \<open>\<^verbatim>\<open>remove_songs_from_filesystem\<close>\<close>

definition audio_exts :: "string list" where
  "audio_exts = [''.mp3'', ''.m4a'', ''.flac'', ''.wav'', ''.ogg'']"

text \<open>
  For one song: the first extension whose file exists and can be unlinked; a failed
  \<^verbatim>\<open>unlink\<close> is reported and the next extension is tried.
\<close>

fun unlink_song :: "env \<Rightarrow> string \<Rightarrow> string list \<Rightarrow> string list \<Rightarrow> string list \<times> nat" where
  "unlink_song e song_id [] fs = (fs, 0)"
| "unlink_song e song_id (ext # exts) fs =
     (if song_id @ ext \<in> set fs
      then (if unlink_fails e (song_id @ ext) then unlink_song e song_id exts fs
            else (removeAll (song_id @ ext) fs, 1))
      else unlink_song e song_id exts fs)"

fun remove_songs_from_filesystem :: "env \<Rightarrow> string list \<Rightarrow> string list \<Rightarrow> string list \<times> nat" where
  "remove_songs_from_filesystem e [] fs = (fs, 0)"
| "remove_songs_from_filesystem e (song_id # rest) fs =
     (case unlink_song e song_id audio_exts fs of
        (fs', n) \<Rightarrow>
          (case remove_songs_from_filesystem e rest fs' of
             (fs'', removed_count) \<Rightarrow> (fs'', n + removed_count)))"

subsection \<open>\<^verbatim>\<open>clean_artists_database\<close> and \<^verbatim>\<open>update_mapping_database\<close>\<close>

text \<open>
  The first loop of \<^verbatim>\<open>clean_artists_database\<close>: every artist that lists the playlist loses
  its first occurrence and is stamped; those left with no playlist are collected.
\<close>

fun artists_loop ::
  "env \<Rightarrow> string \<Rightarrow> (string, artist_info) dict \<Rightarrow> (string, artist_info) dict \<times> string list" where
  "artists_loop e playlist_id [] = ([], [])"
| "artists_loop e playlist_id ((artist_uri, artist_info) # rest) =
     (case artists_loop e playlist_id rest of
        (rest', artists_to_remove) \<Rightarrow>
          (case playlist_ids artist_info of
             None \<Rightarrow> ((artist_uri, artist_info) # rest', artists_to_remove)
           | Some ids \<Rightarrow>
               if playlist_id \<in> set ids
               then ((artist_uri,
                      artist_info\<lparr>playlist_ids := Some (remove1 playlist_id ids),
                                  ar_last_updated := Some (now e)\<rparr>) # rest',
                     (if remove1 playlist_id ids = [] then [artist_uri] else []) @ artists_to_remove)
               else ((artist_uri, artist_info) # rest', artists_to_remove)))"

definition delete_keys :: "'k list \<Rightarrow> ('k, 'v) dict \<Rightarrow> ('k, 'v) dict" where
  "delete_keys ks d = foldl (\<lambda>d k. AList.delete k d) d ks"

definition clean_artists_database :: "env \<Rightarrow> string \<Rightarrow> artists_doc \<Rightarrow> artists_doc" where
  "clean_artists_database e playlist_id db =
     (if \<not> artists_doc_truthy db then db
      else (case ad_artists db of
              None \<Rightarrow> db
            | Some artists \<Rightarrow>
                (case artists_loop e playlist_id artists of
                   (artists', artists_to_remove) \<Rightarrow>
                     db\<lparr>ad_artists := Some (delete_keys artists_to_remove artists')\<rparr>)))"

definition update_mapping_database :: "string list \<Rightarrow> mapping_doc \<Rightarrow> mapping_doc" where
  "update_mapping_database songs_to_remove db =
     (if \<not> mapping_doc_truthy db then db
      else db\<lparr>md_mapping := Some (delete_keys songs_to_remove (mapping_of db))\<rparr>)"

subsection \<open>\<^verbatim>\<open>PlaylistRemover.save_databases\<close>\<close>

text \<open>
  One \<^verbatim>\<open>try\<close> block around the four writes: the first \<^verbatim>\<open>open\<close> that raises ends the save with
  \<^verbatim>\<open>False\<close>. A write that raises leaves its file as it was.
\<close>

definition open_for_write :: "store \<Rightarrow> files \<Rightarrow> files" where
  "open_for_write st fs = fs\<lparr>write_attempts := write_attempts fs @ [st]\<rparr>"

definition save_databases :: "env \<Rightarrow> remover \<Rightarrow> bool \<times> remover" where
  "save_databases e r =
     (let current_time = now e;
          sdb = (songs_db r)\<lparr>sd_last_updated := Some current_time,
                              total_songs := Some (length (songs_of (songs_db r)))\<rparr>;
          r1 = r\<lparr>songs_db := sdb, disk := open_for_write Songs (disk r)\<rparr>
      in if write_fails e Songs then (False, r1)
         else
          (let r2 = r1\<lparr>disk := (disk r1)\<lparr>songs_file := Some sdb\<rparr>\<rparr>;
               pdb = (playlists_db r2)\<lparr>pd_last_updated := Some current_time,
                       total_playlists := Some (length (playlists_of (playlists_db r2)))\<rparr>;
               r3 = r2\<lparr>playlists_db := pdb, disk := open_for_write Playlists (disk r2)\<rparr>
           in if write_fails e Playlists then (False, r3)
              else
               (let r4 = r3\<lparr>disk := (disk r3)\<lparr>playlists_file := Some pdb\<rparr>\<rparr>;
                    adb = (artists_db r4)\<lparr>ad_last_updated := Some current_time,
                            total_artists := Some (length (artists_of (artists_db r4)))\<rparr>;
                    r5 = (if artists_doc_truthy (artists_db r4)
                          then r4\<lparr>artists_db := adb, disk := open_for_write Artists (disk r4)\<rparr>
                          else r4)
                in if artists_doc_truthy (artists_db r4) \<and> write_fails e Artists then (False, r5)
                   else
                    (let r6 = (if artists_doc_truthy (artists_db r4)
                               then r5\<lparr>disk := (disk r5)\<lparr>artists_file := Some adb\<rparr>\<rparr>
                               else r5);
                         mdb = (mapping_db r6)\<lparr>md_last_updated := Some current_time\<rparr>;
                         r7 = (if mapping_doc_truthy (mapping_db r6)
                               then r6\<lparr>mapping_db := mdb, disk := open_for_write Mapping (disk r6)\<rparr>
                               else r6)
                     in if mapping_doc_truthy (mapping_db r6) \<and> write_fails e Mapping
                        then (False, r7)
                        else (True,
                              if mapping_doc_truthy (mapping_db r6)
                              then r7\<lparr>disk := (disk r7)\<lparr>mapping_file := Some mdb\<rparr>\<rparr>
                              else r7)))))"

subsection \<open>\<^verbatim>\<open>remove_playlist\<close>\<close>

text \<open>The removal proper, after the confirmation: lines 293 to 330 of the source.\<close>

definition perform_removal :: "env \<Rightarrow> string \<Rightarrow> string list \<Rightarrow> remover \<Rightarrow> bool \<times> remover" where
  "perform_removal e playlist_id songs_to_remove r =
     (let r1 = (case pd_playlists (playlists_db r) of
                  None \<Rightarrow> r
                | Some playlists \<Rightarrow>
                    r\<lparr>playlists_db :=
                        (playlists_db r)\<lparr>pd_playlists := Some (AList.delete playlist_id playlists)\<rparr>\<rparr>);
          r2 = (case sd_songs (songs_db r1) of
                  None \<Rightarrow> r1
                | Some songs \<Rightarrow>
                    r1\<lparr>songs_db :=
                         (songs_db r1)\<lparr>sd_songs := Some (delete_keys songs_to_remove songs)\<rparr>\<rparr>);
          r3 = (if songs_to_remove \<noteq> []
                then r2\<lparr>disk := (disk r2)\<lparr>audio_files :=
                            fst (remove_songs_from_filesystem e songs_to_remove
                                   (audio_files (disk r2)))\<rparr>\<rparr>
                else r2);
          r4 = r3\<lparr>artists_db := clean_artists_database e playlist_id (artists_db r3)\<rparr>;
          r5 = r4\<lparr>mapping_db := update_mapping_database songs_to_remove (mapping_db r4)\<rparr>
      in save_databases e r5)"

definition remove_playlist :: "env \<Rightarrow> string \<Rightarrow> bool \<Rightarrow> remover \<Rightarrow> py_error + (bool \<times> remover)" where
  "remove_playlist e playlist_name confirm r =
     (case find_playlist_by_name (playlists_db r) playlist_name (console r) of
        Inl err \<Rightarrow> Inl err
      | Inr (found, inp) \<Rightarrow>
          (case found of
             None \<Rightarrow> Inr (False, r\<lparr>console := inp\<rparr>)
           | Some playlist_id \<Rightarrow>
               if playlist_id = [] then Inr (False, r\<lparr>console := inp\<rparr>)
               else
                (let ids = get_songs_in_playlist (playlists_db r) playlist_id;
                     (sdb, song_actions) = remove_playlist_from_songs playlist_id ids (songs_db r);
                     songs_to_remove = map fst (filter (\<lambda>(sid, a). a = Remove) song_actions);
                     r1 = r\<lparr>songs_db := sdb, console := inp\<rparr>
                 in if confirm
                    then (case inp of
                            [] \<Rightarrow> Inl EOFError
                          | line # inp' \<Rightarrow>
                              if py_lower (py_strip line) \<in> set [''yes'', ''y'']
                              then Inr (perform_removal e playlist_id songs_to_remove
                                          (r1\<lparr>console := inp'\<rparr>))
                              else Inr (False, r1\<lparr>console := inp'\<rparr>))
                    else Inr (perform_removal e playlist_id songs_to_remove r1))))"

section \<open>\<^verbatim>\<open>batch_artist_scraper.py\<close>: ingestion\<close>

subsection \<open>\<^verbatim>\<open>SmartSongManager\<close>\<close>

record manager =
  existing_songs :: "(string, song_info) dict"
  existing_playlists :: "(string, playlist_info) dict"
  existing_artists :: "(string, artist_info) dict"
  uri_to_song_id :: "(string, string) dict"
  name_artist_to_song_id :: "(string, string) dict"

definition new_manager :: manager where
  "new_manager =
     \<lparr>existing_songs = [], existing_playlists = [], existing_artists = [],
      uri_to_song_id = [], name_artist_to_song_id = []\<rparr>"

text \<open>
  The lookup key \<^verbatim>\<open>f"{track_name}|{artists}"\<close> of the name index, built from
  \<^verbatim>\<open>.lower().strip()\<close> of both parts; there is no key when either part is empty.
\<close>

definition name_artist_key :: "metadata \<Rightarrow> string option" where
  "name_artist_key m =
     (let name = py_strip (py_lower (meta_track_name m));
          artists = py_strip (py_lower (meta_artists_string m))
      in if name \<noteq> [] \<and> artists \<noteq> [] then Some (name @ ''|'' @ artists) else None)"

text \<open>\<^verbatim>\<open>load_existing_databases\<close>: the loop over the stored songs builds both indexes.\<close>

fun index_songs :: "(string, song_info) dict \<Rightarrow> manager \<Rightarrow> manager" where
  "index_songs [] m = m"
| "index_songs ((song_id, info) # rest) m =
     (let m1 = m\<lparr>existing_songs := AList.update song_id info (existing_songs m)\<rparr>;
          m2 = (if meta_track_uri (si_metadata info) \<noteq> []
                then m1\<lparr>uri_to_song_id :=
                          AList.update (meta_track_uri (si_metadata info)) song_id (uri_to_song_id m1)\<rparr>
                else m1);
          m3 = (case name_artist_key (si_metadata info) of
                  None \<Rightarrow> m2
                | Some key \<Rightarrow>
                    m2\<lparr>name_artist_to_song_id :=
                         AList.update key song_id (name_artist_to_song_id m2)\<rparr>)
      in index_songs rest m3)"

definition load_existing_databases :: "files \<Rightarrow> manager" where
  "load_existing_databases fs =
     (let m1 = (case songs_file fs of
                  None \<Rightarrow> new_manager
                | Some data \<Rightarrow> index_songs (songs_of data) new_manager);
          m2 = (case playlists_file fs of
                  None \<Rightarrow> m1
                | Some data \<Rightarrow> m1\<lparr>existing_playlists := playlists_of data\<rparr>)
      in (case artists_file fs of
            None \<Rightarrow> m2
          | Some data \<Rightarrow> m2\<lparr>existing_artists := artists_of data\<rparr>))"

text \<open>
  \<^verbatim>\<open>generate_song_id\<close>. The digest \<^verbatim>\<open>hashlib.md5(s.encode()).hexdigest()\<close> comes from the
  Python library and is the parameter \<open>hexdigest\<close>. The regular expression
  \<^verbatim>\<open>[^a-z0-9_]\<close> deletes every character that \<open>id_char\<close> rejects.
\<close>

definition id_char :: "char \<Rightarrow> bool" where
  "id_char c =
     (let n = (of_char c :: nat)
      in (97 \<le> n \<and> n \<le> 122) \<or> (48 \<le> n \<and> n \<le> 57) \<or> n = 95)"

definition clean_string :: "string \<Rightarrow> string \<Rightarrow> string" where
  "clean_string track_name artists = filter id_char (py_lower (track_name @ ''_'' @ artists))"

definition generate_song_id :: "(string \<Rightarrow> string) \<Rightarrow> string \<Rightarrow> string \<Rightarrow> string" where
  "generate_song_id hexdigest track_name artists =
     ''song_'' @ take 12 (hexdigest (clean_string track_name artists))"

text \<open>
  \<^verbatim>\<open>find_existing_song\<close>: by uri first, then by name and artists.
  \<^verbatim>\<open>self.existing_songs[song_id]\<close> raises \<^verbatim>\<open>KeyError\<close> for an id the songs lack.
\<close>

definition song_entry_of :: "manager \<Rightarrow> string \<Rightarrow> py_error + (string \<times> song_info) option" where
  "song_entry_of m song_id =
     (case map_of (existing_songs m) song_id of
        None \<Rightarrow> Inl KeyError
      | Some info \<Rightarrow> Inr (Some (song_id, info)))"

definition find_existing_song :: "manager \<Rightarrow> metadata \<Rightarrow> py_error + (string \<times> song_info) option" where
  "find_existing_song m track_info =
     (case (if meta_track_uri track_info \<noteq> [] then map_of (uri_to_song_id m) (meta_track_uri track_info)
            else None) of
        Some song_id \<Rightarrow> song_entry_of m song_id
      | None \<Rightarrow>
          (case name_artist_key track_info of
             None \<Rightarrow> Inr None
           | Some key \<Rightarrow>
               (case map_of (name_artist_to_song_id m) key of
                  None \<Rightarrow> Inr None
                | Some song_id \<Rightarrow> song_entry_of m song_id)))"

definition add_playlist_to_song :: "string \<Rightarrow> string \<Rightarrow> manager \<Rightarrow> bool \<times> manager" where
  "add_playlist_to_song song_id playlist_id m =
     (case map_of (existing_songs m) song_id of
        None \<Rightarrow> (False, m)
      | Some info \<Rightarrow>
          if playlist_id \<notin> set (song_playlists info)
          then (True,
                m\<lparr>existing_songs :=
                    AList.update song_id
                      (info\<lparr>si_playlists := Some (song_playlists info @ [playlist_id])\<rparr>)
                      (existing_songs m)\<rparr>)
          else (False, m))"

text \<open>
  \<^verbatim>\<open>store_artist_info\<close>. For a stored artist without the key \<^verbatim>\<open>playlist_ids\<close> the subscript
  \<^verbatim>\<open>['playlist_ids']\<close> raises \<^verbatim>\<open>KeyError\<close> before anything is changed.
\<close>

definition store_artist_info ::
  "env \<Rightarrow> string \<Rightarrow> string \<Rightarrow> string \<Rightarrow> manager \<Rightarrow> py_error + manager" where
  "store_artist_info e artist_uri artist_name playlist_key m =
     (case map_of (existing_artists m) artist_uri of
        Some a \<Rightarrow>
          (case playlist_ids a of
             None \<Rightarrow> Inl KeyError
           | Some ids \<Rightarrow>
               if playlist_key \<notin> set ids
               then Inr (m\<lparr>existing_artists :=
                            AList.update artist_uri
                              (a\<lparr>playlist_ids := Some (ids @ [playlist_key]),
                                 ar_last_updated := Some (now e)\<rparr>)
                              (existing_artists m)\<rparr>)
               else Inr m)
      | None \<Rightarrow>
          Inr (m\<lparr>existing_artists :=
                   AList.update artist_uri
                     \<lparr>ar_name = Some artist_name, playlist_ids = Some [playlist_key],
                      ar_created_at = Some (now e), ar_last_updated = Some (now e)\<rparr>
                     (existing_artists m)\<rparr>))"

subsection \<open>\<^verbatim>\<open>process_artist_tracks\<close>\<close>

text \<open>
  A captured track after the \<^verbatim>\<open>safe_get\<close> calls: its name (with the default filled in), its
  uri (\<^verbatim>\<open>''\<close> when missing) and its artists, each a name (\<open>None\<close> when missing or blank) and a
  uri.
\<close>

record track =
  tr_name :: string
  tr_uri :: string
  tr_artists :: "(string option \<times> string) list"

text \<open>The variables of the loop over the captured tracks.\<close>

record ingest =
  song_manager :: manager
  ing_song_ids :: "string list"
  processed_tracks :: "metadata list"
  new_songs_to_download :: "(string \<times> string \<times> string) list"
  existing_songs_updated :: nat

definition start_ingest :: "manager \<Rightarrow> ingest" where
  "start_ingest m =
     \<lparr>song_manager = m, ing_song_ids = [], processed_tracks = [], new_songs_to_download = [],
      existing_songs_updated = 0\<rparr>"

definition individual_name :: "string option \<Rightarrow> string" where
  "individual_name n = (case n of None \<Rightarrow> ''Unknown Artist'' | Some x \<Rightarrow> x)"

fun join_names :: "string list \<Rightarrow> string" where
  "join_names [] = []"
| "join_names [n] = n"
| "join_names (n # n' # ns) = n @ '', '' @ join_names (n' # ns)"

text \<open>
  The inner loop over a track's artists; a \<^verbatim>\<open>KeyError\<close> leaves the loop with the artists
  stored so far.
\<close>

fun store_track_artists ::
  "env \<Rightarrow> string \<Rightarrow> (string option \<times> string) list \<Rightarrow> manager \<Rightarrow> py_error option \<times> manager" where
  "store_track_artists e playlist_key [] m = (None, m)"
| "store_track_artists e playlist_key ((n, artist_uri) # rest) m =
     (case store_artist_info e artist_uri (individual_name n) playlist_key m of
        Inl err \<Rightarrow> (Some err, m)
      | Inr m' \<Rightarrow> store_track_artists e playlist_key rest m')"

definition new_song_entry :: "metadata \<Rightarrow> string \<Rightarrow> song_info" where
  "new_song_entry track_info playlist_key =
     \<lparr>si_metadata = track_info, si_playlists = Some [playlist_key],
      si_download_status = Some ''pending''\<rparr>"

definition artists_string_of :: "track \<Rightarrow> string" where
  "artists_string_of t = join_names (map (\<lambda>(n, u). individual_name n) (tr_artists t))"

definition track_info_of :: "track \<Rightarrow> metadata" where
  "track_info_of t =
     \<lparr>meta_track_name = tr_name t, meta_artists_string = artists_string_of t,
      meta_track_uri = tr_uri t\<rparr>"

text \<open>
  The body of the loop. An exception inside it is caught by the \<^verbatim>\<open>except\<close> of the body: the
  track is left out and the loop goes on.
\<close>

definition process_track ::
  "(string \<Rightarrow> string) \<Rightarrow> env \<Rightarrow> string \<Rightarrow> ingest \<Rightarrow> track \<Rightarrow> ingest" where
  "process_track hexdigest e playlist_key st t =
     (case store_track_artists e playlist_key (tr_artists t) (song_manager st) of
        (Some err, m1) \<Rightarrow> st\<lparr>song_manager := m1\<rparr>
      | (None, m1) \<Rightarrow>
          (let track_info = track_info_of t;
               song_id = generate_song_id hexdigest (tr_name t) (artists_string_of t)
           in (case find_existing_song m1 track_info of
                 Inl err \<Rightarrow> st\<lparr>song_manager := m1\<rparr>
               | Inr (Some (existing_song_id, existing_song_info)) \<Rightarrow>
                   (case add_playlist_to_song existing_song_id playlist_key m1 of
                      (changed, m2) \<Rightarrow>
                        st\<lparr>song_manager := m2,
                           existing_songs_updated :=
                             existing_songs_updated st + (if changed then 1 else 0),
                           ing_song_ids := ing_song_ids st @ [existing_song_id],
                           processed_tracks := processed_tracks st @ [track_info]\<rparr>)
               | Inr None \<Rightarrow>
                   st\<lparr>song_manager :=
                        m1\<lparr>existing_songs :=
                             AList.update song_id (new_song_entry track_info playlist_key)
                               (existing_songs m1)\<rparr>,
                      new_songs_to_download :=
                        new_songs_to_download st @ [(song_id, tr_name t, artists_string_of t)],
                      ing_song_ids := ing_song_ids st @ [song_id],
                      processed_tracks := processed_tracks st @ [track_info]\<rparr>)))"

definition main_artist_uri :: "string \<Rightarrow> track list \<Rightarrow> string" where
  "main_artist_uri artist_name tracks =
     (case tracks of
        [] \<Rightarrow> []
      | first_track # _ \<Rightarrow>
          (case find (\<lambda>(n, u). (case n of None \<Rightarrow> ''Unknown'' | Some x \<Rightarrow> x) = artist_name)
                  (tr_artists first_track) of
             None \<Rightarrow> []
           | Some (n, u) \<Rightarrow> u))"

definition playlist_entry :: "env \<Rightarrow> string \<Rightarrow> string list \<Rightarrow> manager \<Rightarrow> playlist_info" where
  "playlist_entry e playlist_name ids m =
     \<lparr>pl_name = Some playlist_name,
      total_tracks = Some (length ids),
      successful_downloads =
        Some (length (filter (\<lambda>song_id.
                 (case map_of (existing_songs m) song_id of
                    None \<Rightarrow> False
                  | Some info \<Rightarrow> si_download_status info = Some ''completed'')) ids)),
      pl_songs = Some ids,
      pl_song_ids = None,
      pl_created_at = Some (now e),
      pl_last_updated = Some (now e)\<rparr>"

text \<open>
  \<^verbatim>\<open>save_databases(song_manager)\<close> of the scraper: the four documents are built from the
  manager and written inside one \<^verbatim>\<open>try\<close> block, so the first write that raises ends the
  save. The mapping document is rebuilt from the songs on every save.
\<close>

definition songs_document :: "env \<Rightarrow> manager \<Rightarrow> songs_doc" where
  "songs_document e m =
     \<lparr>sd_songs = Some (existing_songs m), total_songs = Some (length (existing_songs m)),
      sd_last_updated = Some (now e)\<rparr>"

definition playlists_document :: "env \<Rightarrow> manager \<Rightarrow> playlists_doc" where
  "playlists_document e m =
     \<lparr>pd_playlists = Some (existing_playlists m),
      total_playlists = Some (length (existing_playlists m)),
      pd_last_updated = Some (now e)\<rparr>"

definition artists_document :: "env \<Rightarrow> manager \<Rightarrow> artists_doc" where
  "artists_document e m =
     \<lparr>ad_artists = Some (existing_artists m),
      total_artists = Some (length (existing_artists m)),
      ad_last_updated = Some (now e)\<rparr>"

definition mapping_document :: "env \<Rightarrow> manager \<Rightarrow> mapping_doc" where
  "mapping_document e m =
     \<lparr>md_mapping = Some (map (\<lambda>(song_id, info). (song_id, song_playlists info)) (existing_songs m)),
      md_last_updated = Some (now e)\<rparr>"

definition save_databases_scraper :: "env \<Rightarrow> manager \<Rightarrow> files \<Rightarrow> files" where
  "save_databases_scraper e m fs =
     (let f1 = open_for_write Songs fs
      in if write_fails e Songs then f1
         else
          (let f2 = open_for_write Playlists (f1\<lparr>songs_file := Some (songs_document e m)\<rparr>)
           in if write_fails e Playlists then f2
              else
               (let f3 = open_for_write Artists
                           (f2\<lparr>playlists_file := Some (playlists_document e m)\<rparr>)
                in if write_fails e Artists then f3
                   else
                    (let f4 = open_for_write Mapping
                                (f3\<lparr>artists_file := Some (artists_document e m)\<rparr>)
                     in if write_fails e Mapping then f4
                        else f4\<lparr>mapping_file := Some (mapping_document e m)\<rparr>))))"

text \<open>
  \<^verbatim>\<open>process_artist_tracks\<close>, lines 507 to 641: a fresh manager loads the stores, every
  captured track is processed, the playlist record of the artist is installed and the
  stores are saved. \<open>manager_before_save\<close> is the manager as it stands when
  \<^verbatim>\<open>save_databases\<close> is called at line 641. The call of \<^verbatim>\<open>store_artist_info\<close> for the main
  artist stands outside any \<^verbatim>\<open>try\<close>, so its \<^verbatim>\<open>KeyError\<close> ends the function. The download
  stage that follows the save (lines 650 to 685) only rewrites \<^verbatim>\<open>download_info\<close> and the
  download counter, and saves again; it is left out here.
\<close>

definition manager_before_save ::
  "(string \<Rightarrow> string) \<Rightarrow> env \<Rightarrow> string \<Rightarrow> string \<Rightarrow> track list \<Rightarrow> files
     \<Rightarrow> py_error + manager" where
  "manager_before_save hexdigest e artist_name artist_id all_artist_tracks fs =
     (let playlist_key = ''artist_'' @ artist_id;
          playlist_name = artist_name @ '' - Discography'';
          st = foldl (process_track hexdigest e playlist_key)
                 (start_ingest (load_existing_databases fs))
                 all_artist_tracks;
          m1 = (song_manager st)\<lparr>existing_playlists :=
                 AList.update playlist_key
                   (playlist_entry e playlist_name (ing_song_ids st) (song_manager st))
                   (existing_playlists (song_manager st))\<rparr>;
          uri = main_artist_uri artist_name all_artist_tracks
      in if uri \<noteq> [] then store_artist_info e uri artist_name playlist_key m1 else Inr m1)"

definition process_artist_tracks ::
  "(string \<Rightarrow> string) \<Rightarrow> env \<Rightarrow> string \<Rightarrow> string \<Rightarrow> track list \<Rightarrow> files
     \<Rightarrow> py_error + files" where
  "process_artist_tracks hexdigest e artist_name artist_id all_artist_tracks fs =
     (if all_artist_tracks = [] then Inr fs
      else
       (case manager_before_save hexdigest e artist_name artist_id all_artist_tracks fs of
          Inl err \<Rightarrow> Inl err
        | Inr m2 \<Rightarrow> Inr (save_databases_scraper e m2 fs)))"

text \<open>
  The loop of \<^verbatim>\<open>main\<close> over the collected artists (lines 884 to 899): each artist, with its
  name, id and captured tracks, is processed by its own call of \<^verbatim>\<open>process_artist_tracks\<close>,
  and so by its own manager; an exception of the call is caught and counted, and the loop
  goes on with the files as they are.
\<close>

definition process_collected_artists ::
  "(string \<Rightarrow> string) \<Rightarrow> env \<Rightarrow> (string \<times> string \<times> track list) list \<Rightarrow> files \<Rightarrow> files" where
  "process_collected_artists hexdigest e all_artists_data fs =
     foldl (\<lambda>fs (artist_name, artist_id, tracks).
              (case process_artist_tracks hexdigest e artist_name artist_id tracks fs of
                 Inl err \<Rightarrow> fs
               | Inr fs' \<Rightarrow> fs'))
       fs all_artists_data"

section \<open>The saves of the downloader and of the cleanup tool\<close>

text \<open>
  \<^verbatim>\<open>save_json_file(path, data)\<close> for each of the four paths: it returns \<^verbatim>\<open>False\<close> when
  anything inside it raises, and \<^verbatim>\<open>True\<close> after the file is written.
\<close>

definition save_songs_file :: "env \<Rightarrow> songs_doc \<Rightarrow> files \<Rightarrow> bool \<times> files" where
  "save_songs_file e data fs =
     (if write_fails e Songs then (False, open_for_write Songs fs)
      else (True, (open_for_write Songs fs)\<lparr>songs_file := Some data\<rparr>))"

definition save_playlists_file :: "env \<Rightarrow> playlists_doc \<Rightarrow> files \<Rightarrow> bool \<times> files" where
  "save_playlists_file e data fs =
     (if write_fails e Playlists then (False, open_for_write Playlists fs)
      else (True, (open_for_write Playlists fs)\<lparr>playlists_file := Some data\<rparr>))"

definition save_mapping_file :: "env \<Rightarrow> mapping_doc \<Rightarrow> files \<Rightarrow> bool \<times> files" where
  "save_mapping_file e data fs =
     (if write_fails e Mapping then (False, open_for_write Mapping fs)
      else (True, (open_for_write Mapping fs)\<lparr>mapping_file := Some data\<rparr>))"

definition save_artists_file :: "env \<Rightarrow> artists_doc \<Rightarrow> files \<Rightarrow> bool \<times> files" where
  "save_artists_file e data fs =
     (if write_fails e Artists then (False, open_for_write Artists fs)
      else (True, (open_for_write Artists fs)\<lparr>artists_file := Some data\<rparr>))"

text \<open>\<^verbatim>\<open>PlaylistSongDownloader\<close>: three documents, no artists.\<close>

record downloader =
  dl_songs_db :: songs_doc
  dl_playlists_db :: playlists_doc
  dl_mapping_db :: mapping_doc

text \<open>
  \<^verbatim>\<open>PlaylistSongDownloader.save_databases\<close>: the three documents are written as they are held
  in memory; the function counts the writes that succeeded and prints the count.
\<close>

definition save_databases_downloader :: "env \<Rightarrow> downloader \<Rightarrow> files \<Rightarrow> nat \<times> files" where
  "save_databases_downloader e d fs =
     (case save_songs_file e (dl_songs_db d) fs of
        (ok1, f1) \<Rightarrow>
          (case save_playlists_file e (dl_playlists_db d) f1 of
             (ok2, f2) \<Rightarrow>
               (case save_mapping_file e (dl_mapping_db d) f2 of
                  (ok3, f3) \<Rightarrow>
                    ((if ok1 then 1 else 0) + (if ok2 then 1 else 0) + (if ok3 then 1 else 0),
                     f3))))"

text \<open>\<^verbatim>\<open>SongCleanupTool\<close> and its \<^verbatim>\<open>save_all_databases\<close>: four independent writes.\<close>

record cleanup_tool =
  ct_songs_db :: songs_doc
  ct_playlists_db :: playlists_doc
  ct_mapping_db :: mapping_doc
  ct_artists_db :: artists_doc

definition save_all_databases :: "env \<Rightarrow> cleanup_tool \<Rightarrow> files \<Rightarrow> nat \<times> files" where
  "save_all_databases e c fs =
     (case save_songs_file e (ct_songs_db c) fs of
        (ok1, f1) \<Rightarrow>
          (case save_playlists_file e (ct_playlists_db c) f1 of
             (ok2, f2) \<Rightarrow>
               (case save_mapping_file e (ct_mapping_db c) f2 of
                  (ok3, f3) \<Rightarrow>
                    (case save_artists_file e (ct_artists_db c) f3 of
                       (ok4, f4) \<Rightarrow>
                         ((if ok1 then 1 else 0) + (if ok2 then 1 else 0)
                            + (if ok3 then 1 else 0) + (if ok4 then 1 else 0),
                          f4)))))"

section \<open>Invariants of the artist store\<close>

text \<open>
  The playlist ids of an artist record (\<^verbatim>\<open>.get('playlist_ids', [])\<close>), and the shape the
  tools keep: an artist record lists at least one playlist, and none twice; the store has
  one record per artist uri.
\<close>

definition artist_ids :: "artist_info \<Rightarrow> string list" where
  "artist_ids a = (case playlist_ids a of None \<Rightarrow> [] | Some ids \<Rightarrow> ids)"

definition artist_ok :: "artist_info \<Rightarrow> bool" where
  "artist_ok a = (case playlist_ids a of None \<Rightarrow> False | Some ids \<Rightarrow> ids \<noteq> [] \<and> distinct ids)"

definition artists_ok :: "(string, artist_info) dict \<Rightarrow> bool" where
  "artists_ok d = (distinct (map fst d) \<and> list_all (\<lambda>(artist_uri, a). artist_ok a) d)"

text \<open>
  What \<^verbatim>\<open>clean_artists_database\<close> does to one record, and the records it deletes.
\<close>

definition detached :: "env \<Rightarrow> string \<Rightarrow> artist_info \<Rightarrow> artist_info" where
  "detached e playlist_id a =
     (if playlist_id \<in> set (artist_ids a)
      then a\<lparr>playlist_ids := Some (remove1 playlist_id (artist_ids a)),
             ar_last_updated := Some (now e)\<rparr>
      else a)"

definition only_in :: "string \<Rightarrow> artist_info \<Rightarrow> bool" where
  "only_in playlist_id a = (playlist_id \<in> set (artist_ids a) \<and> remove1 playlist_id (artist_ids a) = [])"

section \<open>Invariants of the resolver\<close>




section \<open>Count integrity of a written document\<close>

text \<open>
  A store file holds a document whose counter equals the length of its collection and
  whose \<^verbatim>\<open>last_updated\<close> is the time of the save; and an environment in which no write
  raises.
\<close>

definition counts_ok_songs :: "env \<Rightarrow> songs_doc option \<Rightarrow> bool" where
  "counts_ok_songs e f =
     (case f of None \<Rightarrow> False
      | Some d \<Rightarrow> total_songs d = Some (length (songs_of d)) \<and> sd_last_updated d = Some (now e))"

definition counts_ok_playlists :: "env \<Rightarrow> playlists_doc option \<Rightarrow> bool" where
  "counts_ok_playlists e f =
     (case f of None \<Rightarrow> False
      | Some d \<Rightarrow> total_playlists d = Some (length (playlists_of d)) \<and>
                  pd_last_updated d = Some (now e))"

definition counts_ok_artists :: "env \<Rightarrow> artists_doc option \<Rightarrow> bool" where
  "counts_ok_artists e f =
     (case f of None \<Rightarrow> False
      | Some d \<Rightarrow> total_artists d = Some (length (artists_of d)) \<and>
                  ad_last_updated d = Some (now e))"

definition all_writes_succeed :: "env \<Rightarrow> bool" where
  "all_writes_succeed e =
     (\<not> write_fails e Songs \<and> \<not> write_fails e Playlists \<and> \<not> write_fails e Artists \<and>
      \<not> write_fails e Mapping)"

section \<open>The writes of a save that stops at the first failure\<close>

text \<open>
  The stores of a list up to and including the first whose write fails, and the stores
  that \<^verbatim>\<open>PlaylistRemover.save_databases\<close> writes, in its order.
\<close>

fun upto_first_failure :: "env \<Rightarrow> store list \<Rightarrow> store list" where
  "upto_first_failure e [] = []"
| "upto_first_failure e (st # sts) =
     (if write_fails e st then [st] else st # upto_first_failure e sts)"

definition remover_stores :: "remover \<Rightarrow> store list" where
  "remover_stores r =
     [Songs, Playlists] @ (if artists_doc_truthy (artists_db r) then [Artists] else [])
       @ (if mapping_doc_truthy (mapping_db r) then [Mapping] else [])"

section \<open>Example catalogs\<close>

text \<open>
  A catalog as the remover loads it: song \<^verbatim>\<open>s1\<close> in playlist \<^verbatim>\<open>p1\<close> (named Rock) only, with
  its audio file on disk.
\<close>

definition song_A :: "string list \<Rightarrow> song_info" where
  "song_A ps =
     \<lparr>si_metadata = \<lparr>meta_track_name = ''A'', meta_artists_string = ''X'', meta_track_uri = ''u1''\<rparr>,
      si_playlists = Some ps, si_download_status = Some ''completed''\<rparr>"

definition playlist_named :: "string \<Rightarrow> string list \<Rightarrow> playlist_info" where
  "playlist_named n ids =
     \<lparr>pl_name = Some n, total_tracks = Some (length ids), successful_downloads = Some 0,
      pl_songs = None, pl_song_ids = Some ids, pl_created_at = None, pl_last_updated = None\<rparr>"

definition no_files :: files where
  "no_files =
     \<lparr>songs_file = None, playlists_file = None, artists_file = None, mapping_file = None,
      audio_files = [], write_attempts = []\<rparr>"

definition calm :: env where
  "calm = \<lparr>now = ''2025-01-01T00:00:00'', write_fails = (\<lambda>st. False),
            unlink_fails = (\<lambda>f. False)\<rparr>"

definition rock_remover :: remover where
  "rock_remover =
     \<lparr>songs_db = \<lparr>sd_songs = Some [(''s1'', song_A [''p1''])], total_songs = Some 1,
                  sd_last_updated = None\<rparr>,
      playlists_db = \<lparr>pd_playlists = Some [(''p1'', playlist_named ''Rock'' [''s1''])],
                      total_playlists = Some 1, pd_last_updated = None\<rparr>,
      artists_db = empty_artists_doc,
      mapping_db = \<lparr>md_mapping = Some [(''s1'', [''p1''])], md_last_updated = None\<rparr>,
      disk = no_files\<lparr>audio_files := [''s1.mp3'']\<rparr>,
      console = [''yes'']\<rparr>"

text \<open>Artist X appears in two playlists and artist Y in one.\<close>

definition artist_in :: "string \<Rightarrow> string list \<Rightarrow> artist_info" where
  "artist_in n ps =
     \<lparr>ar_name = Some n, playlist_ids = Some ps, ar_created_at = Some ''2024-06-01T00:00:00'',
      ar_last_updated = Some ''2024-06-01T00:00:00''\<rparr>"

definition two_artists :: artists_doc where
  "two_artists =
     \<lparr>ad_artists = Some [(''ux'', artist_in ''X'' [''p1'', ''p2'']), (''uy'', artist_in ''Y'' [''p1''])],
      total_artists = Some 2, ad_last_updated = None\<rparr>"

definition one_song_manager :: manager where
  "one_song_manager =
     \<lparr>existing_songs = [(''s1'', song_A [''p1''])], existing_playlists = [],
      existing_artists = [(''ux'', artist_in ''X'' [''p1''])],
      uri_to_song_id = [(''u1'', ''s1'')], name_artist_to_song_id = [(''a|x'', ''s1'')]\<rparr>"

text \<open>
  The MD5 digests, as \<^verbatim>\<open>hashlib\<close> computes them, of the two strings that the examples hash
  (\<^verbatim>\<open>a_x\<close> and \<^verbatim>\<open>alive_x\<close>).
\<close>

definition md5_sample :: "string \<Rightarrow> string" where
  "md5_sample s =
     (if s = ''a_x'' then ''d4bb73c2c32a9204ad95788d6b765c6c''
      else if s = ''alive_x'' then ''b03fe66ddcfbc2ff3292fa2682d5349c''
      else ''d41d8cd98f00b204e9800998ecf8427e'')"

text \<open>
  Track A by X as captured (with a uri or without), its live version, and the catalogs
  the scraper writes on an empty disk for the discography of X (artist id \<^verbatim>\<open>1\<close>) when that
  consists of track A without a uri, or of the live version with uri \<^verbatim>\<open>u1\<close>.
\<close>

definition track_A :: "string \<Rightarrow> track" where
  "track_A uri = \<lparr>tr_name = ''A'', tr_uri = uri, tr_artists = [(Some ''X'', ''ux'')]\<rparr>"

definition track_A_live :: track where
  "track_A_live = \<lparr>tr_name = ''A (Live)'', tr_uri = ''u1'', tr_artists = [(Some ''X'', ''ux'')]\<rparr>"

definition track_A_bang :: track where
  "track_A_bang = \<lparr>tr_name = ''A!'', tr_uri = ''u3'', tr_artists = [(Some ''X'', ''ux'')]\<rparr>"

definition stored :: "string \<Rightarrow> string \<Rightarrow> string \<Rightarrow> string list \<Rightarrow> string \<Rightarrow> song_info" where
  "stored n a u ps status =
     \<lparr>si_metadata = \<lparr>meta_track_name = n, meta_artists_string = a, meta_track_uri = u\<rparr>,
      si_playlists = Some ps, si_download_status = Some status\<rparr>"

definition catalog_A :: files where
  "catalog_A =
     \<lparr>songs_file = Some \<lparr>sd_songs = Some [(''song_d4bb73c2c32a'',
                                            stored ''A'' ''X'' [] [''artist_1''] ''pending'')],
                          total_songs = Some 1, sd_last_updated = Some (now calm)\<rparr>,
      playlists_file = Some \<lparr>pd_playlists = Some [(''artist_1'',
          \<lparr>pl_name = Some ''X - Discography'', total_tracks = Some 1,
           successful_downloads = Some 0, pl_songs = Some [''song_d4bb73c2c32a''],
           pl_song_ids = None, pl_created_at = Some (now calm),
           pl_last_updated = Some (now calm)\<rparr>)],
          total_playlists = Some 1, pd_last_updated = Some (now calm)\<rparr>,
      artists_file = Some \<lparr>ad_artists = Some [(''ux'',
          \<lparr>ar_name = Some ''X'', playlist_ids = Some [''artist_1''],
           ar_created_at = Some (now calm), ar_last_updated = Some (now calm)\<rparr>)],
          total_artists = Some 1, ad_last_updated = Some (now calm)\<rparr>,
      mapping_file = Some \<lparr>md_mapping = Some [(''song_d4bb73c2c32a'', [''artist_1''])],
                            md_last_updated = Some (now calm)\<rparr>,
      audio_files = [],
      write_attempts = [Songs, Playlists, Artists, Mapping]\<rparr>"

definition catalog_A_live :: files where
  "catalog_A_live =
     \<lparr>songs_file = Some \<lparr>sd_songs = Some [(''song_b03fe66ddcfb'',
                                            stored ''A (Live)'' ''X'' ''u1'' [''artist_1''] ''pending'')],
                          total_songs = Some 1, sd_last_updated = Some (now calm)\<rparr>,
      playlists_file = Some \<lparr>pd_playlists = Some [(''artist_1'',
          \<lparr>pl_name = Some ''X - Discography'', total_tracks = Some 1,
           successful_downloads = Some 0, pl_songs = Some [''song_b03fe66ddcfb''],
           pl_song_ids = None, pl_created_at = Some (now calm),
           pl_last_updated = Some (now calm)\<rparr>)],
          total_playlists = Some 1, pd_last_updated = Some (now calm)\<rparr>,
      artists_file = Some \<lparr>ad_artists = Some [(''ux'',
          \<lparr>ar_name = Some ''X'', playlist_ids = Some [''artist_1''],
           ar_created_at = Some (now calm), ar_last_updated = Some (now calm)\<rparr>)],
          total_artists = Some 1, ad_last_updated = Some (now calm)\<rparr>,
      mapping_file = Some \<lparr>md_mapping = Some [(''song_b03fe66ddcfb'', [''artist_1''])],
                            md_last_updated = Some (now calm)\<rparr>,
      audio_files = [],
      write_attempts = [Songs, Playlists, Artists, Mapping]\<rparr>"

text \<open>
  Environments in which the songs file, or the artists file, cannot be written; a
  downloader whose songs
  document carries a counter that differs from its one song, and one whose songs file was
  missing at load; a cleanup tool holding the Rock catalog.
\<close>

definition songs_locked :: env where
  "songs_locked = calm\<lparr>write_fails := (\<lambda>st. st = Songs)\<rparr>"

definition artists_locked :: env where
  "artists_locked = calm\<lparr>write_fails := (\<lambda>st. st = Artists)\<rparr>"

definition stale_downloader :: downloader where
  "stale_downloader =
     \<lparr>dl_songs_db = \<lparr>sd_songs = Some [(''s1'', song_A [''p1''])], total_songs = Some 2,
                     sd_last_updated = Some ''2024-06-01T00:00:00''\<rparr>,
      dl_playlists_db = \<lparr>pd_playlists = Some [(''p1'', playlist_named ''Rock'' [''s1''])],
                         total_playlists = Some 1, pd_last_updated = Some ''2025-01-01T00:00:00''\<rparr>,
      dl_mapping_db = \<lparr>md_mapping = Some [(''s1'', [''p1''])], md_last_updated = None\<rparr>\<rparr>"

definition bare_downloader :: downloader where
  "bare_downloader = stale_downloader\<lparr>dl_songs_db := empty_songs_doc\<rparr>"

definition rock_cleanup :: cleanup_tool where
  "rock_cleanup =
     \<lparr>ct_songs_db = songs_db rock_remover, ct_playlists_db = playlists_db rock_remover,
      ct_mapping_db = mapping_db rock_remover, ct_artists_db = two_artists\<rparr>"

text \<open>
  A catalog whose playlist records list their members under \<^verbatim>\<open>song_ids\<close>: song \<^verbatim>\<open>s1\<close> is in
  the playlists Rock (\<^verbatim>\<open>p1\<close>) and Jazz (\<^verbatim>\<open>p2\<close>). And the catalog the scraper wrote for track A,
  with the audio file of the song on disk.
\<close>

definition catalog_two :: files where
  "catalog_two =
     \<lparr>songs_file = Some \<lparr>sd_songs = Some [(''s1'', song_A [''p1'', ''p2''])],
                          total_songs = Some 1, sd_last_updated = None\<rparr>,
      playlists_file = Some \<lparr>pd_playlists = Some [(''p1'', playlist_named ''Rock'' [''s1'']),
                                                    (''p2'', playlist_named ''Jazz'' [''s1''])],
                              total_playlists = Some 2, pd_last_updated = None\<rparr>,
      artists_file = Some two_artists,
      mapping_file = Some \<lparr>md_mapping = Some [(''s1'', [''p1'', ''p2''])], md_last_updated = None\<rparr>,
      audio_files = [''s1.mp3''],
      write_attempts = []\<rparr>"

definition catalog_A_downloaded :: files where
  "catalog_A_downloaded = catalog_A\<lparr>audio_files := [''song_d4bb73c2c32a.mp3'']\<rparr>"

section \<open>Properties of the playlist remover\<close>

text \<open>
  C10. Removing a playlist that does not exist is an atomic no-op: when no stored playlist
  matches the name, \<^verbatim>\<open>remove_playlist\<close> returns \<^verbatim>\<open>False\<close> and the remover is exactly as before:
  its four in-memory documents, every store file, the audio files and the list of attempted
  writes are unchanged (and no console line is consumed).
\<close>

theorem remove_missing_playlist_noop:
  "playlist_matches (playlists_db r) playlist_name = [] \<Longrightarrow>
   remove_playlist e playlist_name confirm r = Inr (False, r)"
  by (simp add: remove_playlist_def find_playlist_by_name_def)

theorem remove_missing_playlist_noop_witness:
  "playlist_matches (playlists_db rock_remover) ''Jazz'' = [] \<and>
   remove_playlist calm ''Jazz'' True rock_remover = Inr (False, rock_remover)"
proof -
  have none: "playlist_matches (playlists_db rock_remover) ''Jazz'' = []"
    by (simp add: rock_remover_def playlist_matches_def playlists_of_def name_matches_def
        playlist_named_def py_lower_def lower_char_def)
  show ?thesis
    using none remove_missing_playlist_noop [OF none, of calm True] by simp
qed

section \<open>Properties of the relationship tracker\<close>

lemma update_changes:
  assumes "map_of xs k = Some v" "v' \<noteq> v"
  shows "AList.update k v' xs \<noteq> xs"
proof
  assume "AList.update k v' xs = xs"
  then have "map_of (AList.update k v' xs) k = map_of xs k" by simp
  with assms show False by (simp add: update_conv')
qed

lemma song_playlists_set [simp]: "song_playlists (info\<lparr>si_playlists := Some l\<rparr>) = l"
  by (simp add: song_playlists_def)

text \<open>
  C7. \<^verbatim>\<open>add_playlist_to_song\<close> is idempotent and reports mutation: a second call with the same
  song and playlist returns \<^verbatim>\<open>False\<close> and changes nothing; the first call returns \<^verbatim>\<open>True\<close>
  exactly when it changed the manager, which is exactly when the song exists and did not
  list the playlist; the playlist is appended only when absent.
\<close>

theorem add_playlist_to_song_idempotent:
  "add_playlist_to_song song_id playlist_id (snd (add_playlist_to_song song_id playlist_id m))
     = (False, snd (add_playlist_to_song song_id playlist_id m)) \<and>
   (fst (add_playlist_to_song song_id playlist_id m)
      \<longleftrightarrow> snd (add_playlist_to_song song_id playlist_id m) \<noteq> m) \<and>
   (fst (add_playlist_to_song song_id playlist_id m)
      \<longleftrightarrow> (\<exists>info. map_of (existing_songs m) song_id = Some info \<and>
                  playlist_id \<notin> set (song_playlists info))) \<and>
   (\<forall>info. map_of (existing_songs m) song_id = Some info \<longrightarrow>
      map_option song_playlists
        (map_of (existing_songs (snd (add_playlist_to_song song_id playlist_id m))) song_id)
      = Some (if playlist_id \<in> set (song_playlists info) then song_playlists info
              else song_playlists info @ [playlist_id]))"
proof (cases "map_of (existing_songs m) song_id")
  case None
  then show ?thesis by (simp add: add_playlist_to_song_def)
next
  case (Some info)
  show ?thesis
  proof (cases "playlist_id \<in> set (song_playlists info)")
    case True
    with Some show ?thesis by (simp add: add_playlist_to_song_def)
  next
    case False
    let ?info' = "info\<lparr>si_playlists := Some (song_playlists info @ [playlist_id])\<rparr>"
    let ?m' = "m\<lparr>existing_songs := AList.update song_id ?info' (existing_songs m)\<rparr>"
    have res: "add_playlist_to_song song_id playlist_id m = (True, ?m')"
      using Some False by (simp add: add_playlist_to_song_def)
    have "song_playlists ?info' \<noteq> song_playlists info" by simp
    then have "?info' \<noteq> info" by metis
    then have "AList.update song_id ?info' (existing_songs m) \<noteq> existing_songs m"
      using Some update_changes by metis
    then have neq: "?m' \<noteq> m" by (metis manager.select_convs(1) manager.surjective manager.update_convs(1))
    have again: "add_playlist_to_song song_id playlist_id ?m' = (False, ?m')"
      by (simp add: add_playlist_to_song_def update_conv')
    show ?thesis using res neq again Some False by (simp add: update_conv')
  qed
qed

theorem add_playlist_to_song_idempotent_witness:
  "fst (add_playlist_to_song ''s1'' ''p2'' one_song_manager) \<and>
   map_option song_playlists
     (map_of (existing_songs (snd (add_playlist_to_song ''s1'' ''p2'' one_song_manager))) ''s1'')
     = Some [''p1'', ''p2''] \<and>
   add_playlist_to_song ''s1'' ''p2'' (snd (add_playlist_to_song ''s1'' ''p2'' one_song_manager))
     = (False, snd (add_playlist_to_song ''s1'' ''p2'' one_song_manager))"
proof -
  have s1: "map_of (existing_songs one_song_manager) ''s1'' = Some (song_A [''p1''])"
    by (simp add: one_song_manager_def)
  have pl: "song_playlists (song_A [''p1'']) = [''p1'']"
    by (simp add: song_A_def song_playlists_def)
  note th = add_playlist_to_song_idempotent [of "''s1''" "''p2''" one_song_manager]
  from th s1 pl show ?thesis by auto
qed

section \<open>Properties of the artist store\<close>

lemma map_of_delete_keys:
  "map_of (delete_keys ks d) k = (if k \<in> set ks then None else map_of d k)"
  unfolding delete_keys_def
  by (induction ks arbitrary: d) (auto simp: delete_conv')

lemma distinct_delete_keys: "distinct (map fst d) \<Longrightarrow> distinct (map fst (delete_keys ks d))"
  unfolding delete_keys_def
  by (induction ks arbitrary: d) (auto simp: distinct_delete)

lemma artists_loop_eq:
  "artists_loop e p xs =
     (map (\<lambda>(u, a). (u, detached e p a)) xs, map fst (filter (\<lambda>(u, a). only_in p a) xs))"
proof (induction xs)
  case Nil
  show ?case by simp
next
  case (Cons x xs)
  obtain u a where x: "x = (u, a)" by (cases x)
  show ?case
    using Cons x
    by (cases "playlist_ids a") (simp_all add: detached_def only_in_def artist_ids_def)
qed

lemma map_of_detached:
  "map_of (map (\<lambda>(u, a). (u, detached e p a)) xs) k = map_option (detached e p) (map_of xs k)"
  by (induction xs) auto

lemma marked_iff:
  assumes "distinct (map fst xs)"
  shows "k \<in> set (map fst (filter (\<lambda>(u, a). only_in p a) xs))
     \<longleftrightarrow> (\<exists>a. map_of xs k = Some a \<and> only_in p a)"
proof -
  have "k \<in> set (map fst (filter (\<lambda>(u, a). only_in p a) xs))
        \<longleftrightarrow> (\<exists>a. (k, a) \<in> set xs \<and> only_in p a)"
    by force
  then show ?thesis using assms by simp
qed

lemma clean_lookup:
  assumes "distinct (map fst (artists_of db))"
  shows "map_of (artists_of (clean_artists_database e p db)) k =
         (case map_of (artists_of db) k of
            None \<Rightarrow> None
          | Some a \<Rightarrow> if only_in p a then None else Some (detached e p a))"
proof (cases "artists_doc_truthy db \<and> ad_artists db \<noteq> None")
  case False
  then have "artists_of db = []"
    by (auto simp: artists_of_def artists_doc_truthy_def split: option.splits)
  moreover from False have "clean_artists_database e p db = db"
    by (auto simp: clean_artists_database_def split: option.splits)
  ultimately show ?thesis by simp
next
  case True
  then obtain xs where xs: "ad_artists db = Some xs" by auto
  then have of_db: "artists_of db = xs" by (simp add: artists_of_def)
  have "artists_of (clean_artists_database e p db) =
        delete_keys (snd (artists_loop e p xs)) (fst (artists_loop e p xs))"
    using True xs by (simp add: clean_artists_database_def artists_of_def split: prod.splits)
  then have eq: "map_of (artists_of (clean_artists_database e p db)) k =
        (if (\<exists>a. map_of xs k = Some a \<and> only_in p a) then None
         else map_option (detached e p) (map_of xs k))"
    using assms of_db
    by (simp only: artists_loop_eq fst_conv snd_conv map_of_delete_keys marked_iff map_of_detached)
  show ?thesis
    unfolding eq of_db by (cases "map_of xs k") auto
qed


lemma artists_ok_iff:
  "artists_ok d \<longleftrightarrow>
     distinct (map fst d) \<and> (\<forall>u a. map_of d u = Some a \<longrightarrow> artist_ok a)"
  unfolding artists_ok_def list_all_iff
  by (cases "distinct (map fst d)") auto

lemma artist_ok_detached:
  assumes "artist_ok a" "\<not> only_in p a"
  shows "artist_ok (detached e p a)" "p \<notin> set (artist_ids (detached e p a))"
  using assms
  by (auto simp: artist_ok_def detached_def only_in_def artist_ids_def split: option.splits)

lemma only_in_iff: "artist_ok a \<Longrightarrow> only_in p a \<longleftrightarrow> artist_ids a = [p]"
proof -
  assume ok: "artist_ok a"
  show ?thesis
  proof
    assume "only_in p a"
    then have mem: "p \<in> set (artist_ids a)" and emp: "remove1 p (artist_ids a) = []"
      by (simp_all add: only_in_def)
    from mem have "length (remove1 p (artist_ids a)) = length (artist_ids a) - 1"
      by (simp add: length_remove1)
    with emp have "length (artist_ids a) \<le> 1" by simp
    with mem show "artist_ids a = [p]"
      by (cases "artist_ids a") auto
  next
    assume "artist_ids a = [p]"
    then show "only_in p a" by (simp add: only_in_def)
  qed
qed

lemma distinct_clean:
  assumes "distinct (map fst (artists_of db))"
  shows "distinct (map fst (artists_of (clean_artists_database e p db)))"
proof (cases "artists_doc_truthy db \<and> ad_artists db \<noteq> None")
  case False
  then have "clean_artists_database e p db = db"
    by (auto simp: clean_artists_database_def split: option.splits)
  with assms show ?thesis by simp
next
  case True
  then obtain xs where xs: "ad_artists db = Some xs" by auto
  have keys: "map fst (map (\<lambda>(u, a). (u, detached e p a)) xs) = map fst xs"
    by (induction xs) auto
  have "artists_of (clean_artists_database e p db) =
        delete_keys (snd (artists_loop e p xs)) (fst (artists_loop e p xs))"
    using True xs by (simp add: clean_artists_database_def artists_of_def split: prod.splits)
  moreover have "distinct (map fst (map (\<lambda>(u, a). (u, detached e p a)) xs))"
    using assms xs unfolding keys by (simp add: artists_of_def)
  ultimately show ?thesis
    by (simp only: artists_loop_eq fst_conv snd_conv distinct_delete_keys)
qed

lemma store_artist_info_grows:
  assumes ok: "artists_ok (existing_artists m)"
  shows "\<exists>m'. store_artist_info e artist_uri artist_name playlist_key m = Inr m' \<and>
            artists_ok (existing_artists m') \<and>
            (\<exists>a'. map_of (existing_artists m') artist_uri = Some a' \<and>
                  playlist_key \<in> set (artist_ids a')) \<and>
            (\<forall>u a. map_of (existing_artists m) u = Some a \<longrightarrow>
               (\<exists>a'. map_of (existing_artists m') u = Some a' \<and>
                     set (artist_ids a) \<subseteq> set (artist_ids a')))"
proof -
  from ok have dist: "distinct (map fst (existing_artists m))"
    and each: "\<And>u a. map_of (existing_artists m) u = Some a \<Longrightarrow> artist_ok a"
    by (auto simp: artists_ok_iff)
  show ?thesis
  proof (cases "map_of (existing_artists m) artist_uri")
    case None
    let ?a = "\<lparr>ar_name = Some artist_name, playlist_ids = Some [playlist_key],
               ar_created_at = Some (now e), ar_last_updated = Some (now e)\<rparr>"
    let ?m' = "m\<lparr>existing_artists := AList.update artist_uri ?a (existing_artists m)\<rparr>"
    have res: "store_artist_info e artist_uri artist_name playlist_key m = Inr ?m'"
      using None by (simp add: store_artist_info_def)
    have look: "\<And>u. map_of (existing_artists ?m') u =
                 (if u = artist_uri then Some ?a else map_of (existing_artists m) u)"
      by (simp add: update_conv')
    have "artist_ok ?a" by (simp add: artist_ok_def)
    then have ok': "artists_ok (existing_artists ?m')"
      unfolding artists_ok_iff look using dist each by (simp add: distinct_update)
    have "playlist_key \<in> set (artist_ids ?a)" by (simp add: artist_ids_def)
    then have ex: "\<exists>a'. map_of (existing_artists ?m') artist_uri = Some a' \<and>
                  playlist_key \<in> set (artist_ids a')"
      unfolding look by simp
    have grow: "\<forall>u a. map_of (existing_artists m) u = Some a \<longrightarrow>
               (\<exists>a'. map_of (existing_artists ?m') u = Some a' \<and>
                     set (artist_ids a) \<subseteq> set (artist_ids a'))"
      unfolding look using None by auto
    show ?thesis
      by (rule exI [of _ ?m']) (intro conjI res ok' ex grow)
  next
    case (Some a)
    then have "artist_ok a" by (rule each)
    then obtain ids where ids: "playlist_ids a = Some ids" "ids \<noteq> []" "distinct ids"
      by (auto simp: artist_ok_def split: option.splits)
    show ?thesis
    proof (cases "playlist_key \<in> set ids")
      case True
      then have res: "store_artist_info e artist_uri artist_name playlist_key m = Inr m"
        using Some ids by (simp add: store_artist_info_def)
      have "playlist_key \<in> set (artist_ids a)" using True ids by (simp add: artist_ids_def)
      then have ex: "\<exists>a'. map_of (existing_artists m) artist_uri = Some a' \<and>
                  playlist_key \<in> set (artist_ids a')"
        using Some by simp
      have grow: "\<forall>u b. map_of (existing_artists m) u = Some b \<longrightarrow>
               (\<exists>a'. map_of (existing_artists m) u = Some a' \<and>
                     set (artist_ids b) \<subseteq> set (artist_ids a'))"
        by auto
      show ?thesis
        by (rule exI [of _ m]) (intro conjI res ok ex grow)
    next
      case False
      let ?a = "a\<lparr>playlist_ids := Some (ids @ [playlist_key]), ar_last_updated := Some (now e)\<rparr>"
      let ?m' = "m\<lparr>existing_artists := AList.update artist_uri ?a (existing_artists m)\<rparr>"
      have res: "store_artist_info e artist_uri artist_name playlist_key m = Inr ?m'"
        using Some ids False by (simp add: store_artist_info_def)
      have look: "\<And>u. map_of (existing_artists ?m') u =
                   (if u = artist_uri then Some ?a else map_of (existing_artists m) u)"
        by (simp add: update_conv')
      have "artist_ok ?a" using ids False by (simp add: artist_ok_def)
      then have ok': "artists_ok (existing_artists ?m')"
        unfolding artists_ok_iff look using dist each by (simp add: distinct_update)
      have "playlist_key \<in> set (artist_ids ?a)" by (simp add: artist_ids_def)
      then have ex: "\<exists>a'. map_of (existing_artists ?m') artist_uri = Some a' \<and>
                  playlist_key \<in> set (artist_ids a')"
        unfolding look by simp
      have sub: "set (artist_ids a) \<subseteq> set (artist_ids ?a)"
        using ids by (auto simp: artist_ids_def)
      have grow: "\<forall>u b. map_of (existing_artists m) u = Some b \<longrightarrow>
               (\<exists>a'. map_of (existing_artists ?m') u = Some a' \<and>
                     set (artist_ids b) \<subseteq> set (artist_ids a'))"
        unfolding look using Some sub by auto
      show ?thesis
        by (rule exI [of _ ?m']) (intro conjI res ok' ex grow)
    qed
  qed
qed

text \<open>
  C6. An artist record exists exactly while its playlist-id list is non-empty. On a store
  in which every record lists at least one playlist (none twice), \<^verbatim>\<open>store_artist_info\<close>
  returns without error, keeps that shape, makes the artist list the playlist and only
  ever adds ids; \<^verbatim>\<open>clean_artists_database\<close> keeps that shape, removes the playlist id from
  every record that lists it, deletes exactly the records that listed only that playlist
  and leaves every other record as it was.
\<close>

theorem artist_record_iff_referenced:
  "(artists_ok (existing_artists m) \<longrightarrow>
      (\<exists>m'. store_artist_info e artist_uri artist_name playlist_key m = Inr m' \<and>
            artists_ok (existing_artists m') \<and>
            (\<exists>a'. map_of (existing_artists m') artist_uri = Some a' \<and>
                  playlist_key \<in> set (artist_ids a')) \<and>
            (\<forall>u a. map_of (existing_artists m) u = Some a \<longrightarrow>
               (\<exists>a'. map_of (existing_artists m') u = Some a' \<and>
                     set (artist_ids a) \<subseteq> set (artist_ids a'))))) \<and>
   (artists_ok (artists_of db) \<longrightarrow>
      artists_ok (artists_of (clean_artists_database e playlist_id db)) \<and>
      (\<forall>u. map_of (artists_of (clean_artists_database e playlist_id db)) u =
           (case map_of (artists_of db) u of
              None \<Rightarrow> None
            | Some a \<Rightarrow>
                if playlist_id \<in> set (artist_ids a)
                then (if artist_ids a = [playlist_id] then None
                      else Some (a\<lparr>playlist_ids := Some (remove1 playlist_id (artist_ids a)),
                                  ar_last_updated := Some (now e)\<rparr>))
                else Some a)) \<and>
      (\<forall>u a. map_of (artists_of (clean_artists_database e playlist_id db)) u = Some a \<longrightarrow>
             playlist_id \<notin> set (artist_ids a)))"
proof (intro conjI impI)
  assume "artists_ok (existing_artists m)"
  then show "\<exists>m'. store_artist_info e artist_uri artist_name playlist_key m = Inr m' \<and>
            artists_ok (existing_artists m') \<and>
            (\<exists>a'. map_of (existing_artists m') artist_uri = Some a' \<and>
                  playlist_key \<in> set (artist_ids a')) \<and>
            (\<forall>u a. map_of (existing_artists m) u = Some a \<longrightarrow>
               (\<exists>a'. map_of (existing_artists m') u = Some a' \<and>
                     set (artist_ids a) \<subseteq> set (artist_ids a')))"
    by (rule store_artist_info_grows)
next
  assume ok: "artists_ok (artists_of db)"
  then have dist: "distinct (map fst (artists_of db))"
    and each: "\<And>u a. map_of (artists_of db) u = Some a \<Longrightarrow> artist_ok a"
    by (auto simp: artists_ok_iff)
  note look = clean_lookup [OF dist, of e playlist_id]
  show "artists_ok (artists_of (clean_artists_database e playlist_id db))"
    unfolding artists_ok_iff
  proof (intro conjI allI impI)
    show "distinct (map fst (artists_of (clean_artists_database e playlist_id db)))"
      by (rule distinct_clean [OF dist])
  next
    fix u a
    assume "map_of (artists_of (clean_artists_database e playlist_id db)) u = Some a"
    then obtain a0 where "map_of (artists_of db) u = Some a0" "\<not> only_in playlist_id a0"
      "a = detached e playlist_id a0"
      unfolding look by (auto split: option.splits if_splits)
    then show "artist_ok a" using each artist_ok_detached(1) by blast
  qed
  show "\<forall>u. map_of (artists_of (clean_artists_database e playlist_id db)) u =
           (case map_of (artists_of db) u of
              None \<Rightarrow> None
            | Some a \<Rightarrow>
                if playlist_id \<in> set (artist_ids a)
                then (if artist_ids a = [playlist_id] then None
                      else Some (a\<lparr>playlist_ids := Some (remove1 playlist_id (artist_ids a)),
                                  ar_last_updated := Some (now e)\<rparr>))
                else Some a)"
  proof
    fix u
    show "map_of (artists_of (clean_artists_database e playlist_id db)) u =
           (case map_of (artists_of db) u of
              None \<Rightarrow> None
            | Some a \<Rightarrow>
                if playlist_id \<in> set (artist_ids a)
                then (if artist_ids a = [playlist_id] then None
                      else Some (a\<lparr>playlist_ids := Some (remove1 playlist_id (artist_ids a)),
                                  ar_last_updated := Some (now e)\<rparr>))
                else Some a)"
    proof (cases "map_of (artists_of db) u")
      case None
      then show ?thesis unfolding look by simp
    next
      case (Some a)
      then have "artist_ok a" by (rule each)
      then have "only_in playlist_id a \<longleftrightarrow> artist_ids a = [playlist_id]"
        by (rule only_in_iff)
      then show ?thesis
        unfolding look using Some by (auto simp: detached_def only_in_def)
    qed
  qed
  show "\<forall>u a. map_of (artists_of (clean_artists_database e playlist_id db)) u = Some a \<longrightarrow>
             playlist_id \<notin> set (artist_ids a)"
  proof (intro allI impI)
    fix u a
    assume "map_of (artists_of (clean_artists_database e playlist_id db)) u = Some a"
    then obtain a0 where "map_of (artists_of db) u = Some a0" "\<not> only_in playlist_id a0"
      "a = detached e playlist_id a0"
      unfolding look by (auto split: option.splits if_splits)
    then show "playlist_id \<notin> set (artist_ids a)" using each artist_ok_detached(2) by blast
  qed
qed

theorem artist_record_iff_referenced_witness:
  "artists_ok (artists_of two_artists) \<and>
   map_of (artists_of (clean_artists_database calm ''p1'' two_artists)) ''ux''
     = Some ((artist_in ''X'' [''p2''])\<lparr>ar_last_updated := Some (now calm)\<rparr>) \<and>
   map_of (artists_of (clean_artists_database calm ''p1'' two_artists)) ''uy'' = None \<and>
   artists_ok (existing_artists one_song_manager) \<and>
   (\<exists>m'. store_artist_info calm ''ux'' ''X'' ''p2'' one_song_manager = Inr m' \<and>
         artists_ok (existing_artists m'))"
proof -
  have ok1: "artists_ok (artists_of two_artists)"
    by (simp add: artists_ok_def artist_ok_def two_artists_def artists_of_def artist_in_def)
  have ok2: "artists_ok (existing_artists one_song_manager)"
    by (simp add: artists_ok_def artist_ok_def one_song_manager_def artist_in_def)
  note th = artist_record_iff_referenced
    [of one_song_manager calm "''ux''" "''X''" "''p2''" two_artists "''p1''"]
  from th ok1 have look: "\<And>u. map_of (artists_of (clean_artists_database calm ''p1'' two_artists)) u =
           (case map_of (artists_of two_artists) u of
              None \<Rightarrow> None
            | Some a \<Rightarrow>
                if ''p1'' \<in> set (artist_ids a)
                then (if artist_ids a = [''p1''] then None
                      else Some (a\<lparr>playlist_ids := Some (remove1 ''p1'' (artist_ids a)),
                                  ar_last_updated := Some (now calm)\<rparr>))
                else Some a)"
    by blast
  have x: "map_of (artists_of (clean_artists_database calm ''p1'' two_artists)) ''ux''
     = Some ((artist_in ''X'' [''p2''])\<lparr>ar_last_updated := Some (now calm)\<rparr>)"
    unfolding look by (simp add: two_artists_def artists_of_def artist_in_def artist_ids_def)
  have y: "map_of (artists_of (clean_artists_database calm ''p1'' two_artists)) ''uy'' = None"
    unfolding look by (simp add: two_artists_def artists_of_def artist_in_def artist_ids_def)
  from th ok2 have st: "\<exists>m'. store_artist_info calm ''ux'' ''X'' ''p2'' one_song_manager = Inr m' \<and>
         artists_ok (existing_artists m')"
    by blast
  show ?thesis using ok1 ok2 x y st by simp
qed


section \<open>Properties of the identity resolver\<close>

lemma store_artist_info_indexes:
  "store_artist_info e u n k m = Inr m' \<Longrightarrow>
   uri_to_song_id m' = uri_to_song_id m \<and> name_artist_to_song_id m' = name_artist_to_song_id m \<and>
   existing_songs m' = existing_songs m"
  by (auto simp: store_artist_info_def split: option.splits if_splits)

lemma store_track_artists_indexes:
  "store_track_artists e k as m = (r, m') \<Longrightarrow>
   uri_to_song_id m' = uri_to_song_id m \<and> name_artist_to_song_id m' = name_artist_to_song_id m \<and>
   existing_songs m' = existing_songs m"
proof (induction as arbitrary: m)
  case Nil
  then show ?case by simp
next
  case (Cons a as)
  obtain n u where a: "a = (n, u)" by (cases a)
  show ?case
  proof (cases "store_artist_info e u (individual_name n) k m")
    case (Inl err)
    with Cons.prems a show ?thesis by simp
  next
    case (Inr m1)
    with Cons.prems a have "store_track_artists e k as m1 = (r, m')" by simp
    from Cons.IH [OF this] store_artist_info_indexes [OF Inr] show ?thesis by simp
  qed
qed

lemma add_playlist_to_song_indexes:
  "uri_to_song_id (snd (add_playlist_to_song s p m)) = uri_to_song_id m \<and>
   name_artist_to_song_id (snd (add_playlist_to_song s p m)) = name_artist_to_song_id m"
  by (simp add: add_playlist_to_song_def split: option.splits)

lemma process_track_indexes:
  "uri_to_song_id (song_manager (process_track h e k st t)) = uri_to_song_id (song_manager st) \<and>
   name_artist_to_song_id (song_manager (process_track h e k st t))
     = name_artist_to_song_id (song_manager st)"
proof -
  obtain r m1 where sa: "store_track_artists e k (tr_artists t) (song_manager st) = (r, m1)"
    by (cases "store_track_artists e k (tr_artists t) (song_manager st)")
  note i1 = store_track_artists_indexes [OF sa]
  show ?thesis
  proof (cases r)
    case (Some err)
    with sa i1 show ?thesis by (simp add: process_track_def)
  next
    case None
    show ?thesis
    proof (cases "find_existing_song m1 (track_info_of t)")
      case (Inl err)
      with sa None i1 show ?thesis by (simp add: process_track_def)
    next
      case (Inr found)
      show ?thesis
      proof (cases found)
        case None
        with sa \<open>r = None\<close> Inr i1 show ?thesis by (simp add: process_track_def Let_def)
      next
        case (Some p)
        obtain sid info where p: "p = (sid, info)" by (cases p)
        obtain c m2 where ap: "add_playlist_to_song sid k m1 = (c, m2)"
          by (cases "add_playlist_to_song sid k m1")
        from add_playlist_to_song_indexes [of sid k m1] ap
        have "uri_to_song_id m2 = uri_to_song_id m1"
          "name_artist_to_song_id m2 = name_artist_to_song_id m1" by simp_all
        with sa \<open>r = None\<close> Inr Some p ap i1 show ?thesis
          by (simp add: process_track_def Let_def)
      qed
    qed
  qed
qed

lemma process_tracks_indexes:
  "uri_to_song_id (song_manager (foldl (process_track h e k) st ts))
     = uri_to_song_id (song_manager st) \<and>
   name_artist_to_song_id (song_manager (foldl (process_track h e k) st ts))
     = name_artist_to_song_id (song_manager st)"
  by (induction ts arbitrary: st) (simp_all add: process_track_indexes)

lemma manager_before_save_indexes:
  assumes "manager_before_save h e artist_name artist_id ts fs = Inr m"
  shows "uri_to_song_id m = uri_to_song_id (load_existing_databases fs) \<and>
         name_artist_to_song_id m = name_artist_to_song_id (load_existing_databases fs)"
proof -
  let ?k = "''artist_'' @ artist_id"
  let ?st = "foldl (process_track h e ?k) (start_ingest (load_existing_databases fs)) ts"
  let ?m1 = "(song_manager ?st)\<lparr>existing_playlists :=
                 AList.update ?k
                   (playlist_entry e (artist_name @ '' - Discography'') (ing_song_ids ?st)
                      (song_manager ?st))
                   (existing_playlists (song_manager ?st))\<rparr>"
  have loop: "uri_to_song_id (song_manager ?st) = uri_to_song_id (load_existing_databases fs)"
    "name_artist_to_song_id (song_manager ?st)
       = name_artist_to_song_id (load_existing_databases fs)"
    using process_tracks_indexes [of h e ?k "start_ingest (load_existing_databases fs)" ts]
    by (simp_all add: start_ingest_def)
  have m1: "uri_to_song_id ?m1 = uri_to_song_id (load_existing_databases fs)"
    "name_artist_to_song_id ?m1 = name_artist_to_song_id (load_existing_databases fs)"
    using loop by simp_all
  show ?thesis
  proof (cases "main_artist_uri artist_name ts = []")
    case True
    with assms have "m = ?m1" by (simp add: manager_before_save_def Let_def)
    with m1 show ?thesis by simp
  next
    case False
    with assms have "store_artist_info e (main_artist_uri artist_name ts) artist_name ?k ?m1 = Inr m"
      by (simp add: manager_before_save_def Let_def)
    from store_artist_info_indexes [OF this] m1 show ?thesis by simp
  qed
qed

lemma load_indexes_from_songs:
  assumes "songs_file fs = songs_file fs'"
  shows "uri_to_song_id (load_existing_databases fs) = uri_to_song_id (load_existing_databases fs') \<and>
         name_artist_to_song_id (load_existing_databases fs)
           = name_artist_to_song_id (load_existing_databases fs')"
  using assms by (simp add: load_existing_databases_def Let_def split: option.splits)

text \<open>
  C9 (as the code has it). While one \<^verbatim>\<open>SmartSongManager\<close> is in use, neither index
  changes: \<^verbatim>\<open>find_existing_song\<close> only reads them, and processing any list of tracks,
  whether a track hits a stored song or installs a new one, leaves the uri index and the
  name index as they were. The manager that \<^verbatim>\<open>process_artist_tracks\<close> saves for one artist
  has exactly the indexes that \<^verbatim>\<open>load_existing_databases\<close> built when it was created, and
  those are determined by the songs file alone. So a manager's indexes never lose an entry
  and never gain one; entries change only when another manager loads the songs file.
\<close>

theorem indexes_fixed_for_manager:
  "uri_to_song_id (song_manager (foldl (process_track h e k) st ts))
     = uri_to_song_id (song_manager st) \<and>
   name_artist_to_song_id (song_manager (foldl (process_track h e k) st ts))
     = name_artist_to_song_id (song_manager st) \<and>
   (manager_before_save h e artist_name artist_id ts fs = Inr m \<longrightarrow>
      uri_to_song_id m = uri_to_song_id (load_existing_databases fs) \<and>
      name_artist_to_song_id m = name_artist_to_song_id (load_existing_databases fs)) \<and>
   (songs_file fs = songs_file fs' \<longrightarrow>
      uri_to_song_id (load_existing_databases fs) = uri_to_song_id (load_existing_databases fs') \<and>
      name_artist_to_song_id (load_existing_databases fs)
        = name_artist_to_song_id (load_existing_databases fs'))"
  using process_tracks_indexes [of h e k st ts]
    manager_before_save_indexes [of h e artist_name artist_id ts fs m]
    load_indexes_from_songs [of fs fs']
  by blast


theorem indexes_fixed_for_manager_witness:
  "\<exists>m. manager_before_save md5_sample calm ''X'' ''2'' [track_A ''u1''] catalog_A = Inr m \<and>
       uri_to_song_id m = [] \<and>
       name_artist_to_song_id m = [(''a|x'', ''song_d4bb73c2c32a'')]"
proof -
  have "case manager_before_save md5_sample calm ''X'' ''2'' [track_A ''u1''] catalog_A of
          Inl err \<Rightarrow> False | Inr m \<Rightarrow> True"
    by code_simp
  then obtain m where
    m: "manager_before_save md5_sample calm ''X'' ''2'' [track_A ''u1''] catalog_A = Inr m"
    by (cases "manager_before_save md5_sample calm ''X'' ''2'' [track_A ''u1''] catalog_A") auto
  have l1: "uri_to_song_id (load_existing_databases catalog_A) = []"
    by code_simp
  have l2: "name_artist_to_song_id (load_existing_databases catalog_A)
              = [(''a|x'', ''song_d4bb73c2c32a'')]"
    by code_simp
  note th = indexes_fixed_for_manager
    [where h = md5_sample and e = calm and artist_name = "''X''" and artist_id = "''2''"
       and ts = "[track_A ''u1'']" and fs = catalog_A and m = m]
  from th m l1 l2 have "uri_to_song_id m = [] \<and>
       name_artist_to_song_id m = [(''a|x'', ''song_d4bb73c2c32a'')]"
    by simp
  with m show ?thesis by blast
qed


text \<open>
  \<^verbatim>\<open>main\<close> gives every artist of a batch its own manager, which loads the files the previous
  artist saved. From one manager to the next the uri index does change: empty at first, it
  holds \<^verbatim>\<open>u1\<close> after the first artist, and after a second artist whose track has the same
  generated id it holds \<^verbatim>\<open>u3\<close> and no longer \<^verbatim>\<open>u1\<close>.
\<close>

lemma batch_reload_rebuilds_indexes:
  "uri_to_song_id (load_existing_databases no_files) = [] \<and>
   uri_to_song_id (load_existing_databases
       (process_collected_artists md5_sample calm [(''X'', ''1'', [track_A ''u1''])] no_files))
     = [(''u1'', ''song_d4bb73c2c32a'')] \<and>
   uri_to_song_id (load_existing_databases
       (process_collected_artists md5_sample calm
          [(''X'', ''1'', [track_A ''u1'']), (''X'', ''2'', [track_A_bang])] no_files))
     = [(''u3'', ''song_d4bb73c2c32a'')]"
  by code_simp

lemma scraper_writes_catalog_A:
  "process_artist_tracks md5_sample calm ''X'' ''1'' [track_A []] no_files = Inr catalog_A"
  by code_simp


text \<open>
  C9 as stated fails. The stored song A by X has no uri. Track A by X with uri \<^verbatim>\<open>u1\<close> hits it
  through the name index; afterwards \<^verbatim>\<open>u1\<close> is still not in the uri index and a lookup that
  can only succeed by that uri finds nothing.
\<close>

theorem index_gains_nothing_counterexample:
  "ing_song_ids (process_track md5_sample calm ''artist_2''
       (start_ingest (load_existing_databases catalog_A)) (track_A ''u1''))
     = [''song_d4bb73c2c32a''] \<and>
   new_songs_to_download (process_track md5_sample calm ''artist_2''
       (start_ingest (load_existing_databases catalog_A)) (track_A ''u1'')) = [] \<and>
   map_of (uri_to_song_id (song_manager (process_track md5_sample calm ''artist_2''
       (start_ingest (load_existing_databases catalog_A)) (track_A ''u1'')))) ''u1'' = None \<and>
   find_existing_song (song_manager (process_track md5_sample calm ''artist_2''
       (start_ingest (load_existing_databases catalog_A)) (track_A ''u1'')))
     \<lparr>meta_track_name = ''A (Live)'', meta_artists_string = ''X'', meta_track_uri = ''u1''\<rparr>
     = Inr None"
  by code_simp










lemma scraper_writes_catalog_A_live:
  "process_artist_tracks md5_sample calm ''X'' ''1'' [track_A_live] no_files = Inr catalog_A_live"
  by code_simp




section \<open>Properties of the saves\<close>

lemma open_for_write_fields [simp]:
  "songs_file (open_for_write st fs) = songs_file fs"
  "playlists_file (open_for_write st fs) = playlists_file fs"
  "artists_file (open_for_write st fs) = artists_file fs"
  "mapping_file (open_for_write st fs) = mapping_file fs"
  "audio_files (open_for_write st fs) = audio_files fs"
  "write_attempts (open_for_write st fs) = write_attempts fs @ [st]"
  by (simp_all add: open_for_write_def)

lemma remover_save_attempts:
  "write_attempts (disk (snd (save_databases e r)))
     = write_attempts (disk r) @ upto_first_failure e (remover_stores r)"
  by (simp add: save_databases_def Let_def remover_stores_def)

lemma remover_save_result:
  "fst (save_databases e r) = list_all (\<lambda>st. \<not> write_fails e st) (remover_stores r)"
  by (simp add: save_databases_def Let_def remover_stores_def)

lemma scraper_save_attempts:
  "write_attempts (save_databases_scraper e m fs)
     = write_attempts fs @ upto_first_failure e [Songs, Playlists, Artists, Mapping]"
  by (simp add: save_databases_scraper_def Let_def)

lemma remover_save_files:
  "songs_file (disk (snd (save_databases e r)))
     = (if write_fails e Songs then songs_file (disk r)
        else Some (songs_db (snd (save_databases e r))))"
  "playlists_file (disk (snd (save_databases e r)))
     = (if Playlists \<in> set (upto_first_failure e (remover_stores r)) \<and> \<not> write_fails e Playlists
        then Some (playlists_db (snd (save_databases e r))) else playlists_file (disk r))"
  "artists_file (disk (snd (save_databases e r)))
     = (if Artists \<in> set (upto_first_failure e (remover_stores r)) \<and> \<not> write_fails e Artists
        then Some (artists_db (snd (save_databases e r))) else artists_file (disk r))"
  "mapping_file (disk (snd (save_databases e r)))
     = (if Mapping \<in> set (upto_first_failure e (remover_stores r)) \<and> \<not> write_fails e Mapping
        then Some (mapping_db (snd (save_databases e r))) else mapping_file (disk r))"
  by (simp_all add: save_databases_def Let_def remover_stores_def)

lemma scraper_save_files:
  "songs_file (save_databases_scraper e m fs)
     = (if write_fails e Songs then songs_file fs else Some (songs_document e m))"
  "playlists_file (save_databases_scraper e m fs)
     = (if Playlists \<in> set (upto_first_failure e [Songs, Playlists, Artists, Mapping]) \<and>
           \<not> write_fails e Playlists
        then Some (playlists_document e m) else playlists_file fs)"
  "artists_file (save_databases_scraper e m fs)
     = (if Artists \<in> set (upto_first_failure e [Songs, Playlists, Artists, Mapping]) \<and>
           \<not> write_fails e Artists
        then Some (artists_document e m) else artists_file fs)"
  "mapping_file (save_databases_scraper e m fs)
     = (if Mapping \<in> set (upto_first_failure e [Songs, Playlists, Artists, Mapping]) \<and>
           \<not> write_fails e Mapping
        then Some (mapping_document e m) else mapping_file fs)"
  by (simp_all add: save_databases_scraper_def Let_def)


text \<open>
  C5 (as the code has it). \<^verbatim>\<open>SongCleanupTool.save_all_databases\<close> attempts all four writes
  and \<^verbatim>\<open>PlaylistSongDownloader.save_databases\<close> all three, whichever of them fail, and each
  counts the writes that succeeded. \<^verbatim>\<open>PlaylistRemover.save_databases\<close> and the scraper's
  \<^verbatim>\<open>save_databases\<close> stop at the first write that fails, whichever store it is: the writes
  attempted are the stores in order up to and including the first failing one, every
  store after it keeps its file, and the remover returns \<^verbatim>\<open>True\<close> exactly when no write it
  attempted failed. The remover writes songs and playlists, then artists and mapping when
  these documents are not empty; the scraper writes songs, playlists, artists, mapping.
\<close>

theorem saves_attempt_writes:
  "(write_attempts (snd (save_all_databases e c fs))
      = write_attempts fs @ [Songs, Playlists, Mapping, Artists] \<and>
    fst (save_all_databases e c fs)
      = length (filter (\<lambda>st. \<not> write_fails e st) [Songs, Playlists, Mapping, Artists])) \<and>
   (write_attempts (snd (save_databases_downloader e d fs))
      = write_attempts fs @ [Songs, Playlists, Mapping] \<and>
    fst (save_databases_downloader e d fs)
      = length (filter (\<lambda>st. \<not> write_fails e st) [Songs, Playlists, Mapping])) \<and>
   (write_attempts (disk (snd (save_databases e r)))
      = write_attempts (disk r) @ upto_first_failure e (remover_stores r) \<and>
    fst (save_databases e r) = list_all (\<lambda>st. \<not> write_fails e st) (remover_stores r) \<and>
    songs_file (disk (snd (save_databases e r)))
      = (if write_fails e Songs then songs_file (disk r)
         else Some (songs_db (snd (save_databases e r)))) \<and>
    playlists_file (disk (snd (save_databases e r)))
      = (if Playlists \<in> set (upto_first_failure e (remover_stores r)) \<and> \<not> write_fails e Playlists
         then Some (playlists_db (snd (save_databases e r))) else playlists_file (disk r)) \<and>
    artists_file (disk (snd (save_databases e r)))
      = (if Artists \<in> set (upto_first_failure e (remover_stores r)) \<and> \<not> write_fails e Artists
         then Some (artists_db (snd (save_databases e r))) else artists_file (disk r)) \<and>
    mapping_file (disk (snd (save_databases e r)))
      = (if Mapping \<in> set (upto_first_failure e (remover_stores r)) \<and> \<not> write_fails e Mapping
         then Some (mapping_db (snd (save_databases e r))) else mapping_file (disk r))) \<and>
   (write_attempts (save_databases_scraper e m fs)
      = write_attempts fs @ upto_first_failure e [Songs, Playlists, Artists, Mapping] \<and>
    songs_file (save_databases_scraper e m fs)
      = (if write_fails e Songs then songs_file fs else Some (songs_document e m)) \<and>
    playlists_file (save_databases_scraper e m fs)
      = (if Playlists \<in> set (upto_first_failure e [Songs, Playlists, Artists, Mapping]) \<and>
            \<not> write_fails e Playlists
         then Some (playlists_document e m) else playlists_file fs) \<and>
    artists_file (save_databases_scraper e m fs)
      = (if Artists \<in> set (upto_first_failure e [Songs, Playlists, Artists, Mapping]) \<and>
            \<not> write_fails e Artists
         then Some (artists_document e m) else artists_file fs) \<and>
    mapping_file (save_databases_scraper e m fs)
      = (if Mapping \<in> set (upto_first_failure e [Songs, Playlists, Artists, Mapping]) \<and>
            \<not> write_fails e Mapping
         then Some (mapping_document e m) else mapping_file fs))"
proof (intro conjI)
  show "write_attempts (snd (save_all_databases e c fs))
      = write_attempts fs @ [Songs, Playlists, Mapping, Artists]"
    by (simp add: save_all_databases_def save_songs_file_def save_playlists_file_def
        save_mapping_file_def save_artists_file_def)
  show "fst (save_all_databases e c fs)
      = length (filter (\<lambda>st. \<not> write_fails e st) [Songs, Playlists, Mapping, Artists])"
    by (simp add: save_all_databases_def save_songs_file_def save_playlists_file_def
        save_mapping_file_def save_artists_file_def)
  show "write_attempts (snd (save_databases_downloader e d fs))
      = write_attempts fs @ [Songs, Playlists, Mapping]"
    by (simp add: save_databases_downloader_def save_songs_file_def save_playlists_file_def
        save_mapping_file_def)
  show "fst (save_databases_downloader e d fs)
      = length (filter (\<lambda>st. \<not> write_fails e st) [Songs, Playlists, Mapping])"
    by (simp add: save_databases_downloader_def save_songs_file_def save_playlists_file_def
        save_mapping_file_def)
qed (rule remover_save_attempts remover_save_result remover_save_files
       scraper_save_attempts scraper_save_files)+


theorem saves_attempt_writes_witness:
  "fst (save_all_databases songs_locked rock_cleanup no_files) = 3 \<and>
   write_attempts (snd (save_all_databases songs_locked rock_cleanup no_files))
     = [Songs, Playlists, Mapping, Artists] \<and>
   fst (save_databases songs_locked rock_remover) = False \<and>
   write_attempts (disk (snd (save_databases songs_locked rock_remover))) = [Songs] \<and>
   fst (save_databases artists_locked (load_databases catalog_two [])) = False \<and>
   write_attempts (disk (snd (save_databases artists_locked (load_databases catalog_two []))))
     = [Songs, Playlists, Artists] \<and>
   mapping_file (disk (snd (save_databases artists_locked (load_databases catalog_two []))))
     = mapping_file catalog_two"
proof -
  have g: "length (filter (\<lambda>st. \<not> write_fails songs_locked st) [Songs, Playlists, Mapping, Artists]) = 3"
    by (simp add: songs_locked_def calm_def)
  have w0: "write_attempts no_files = []" "write_attempts (disk rock_remover) = []"
    "write_attempts (disk (load_databases catalog_two [])) = []"
    "mapping_file (disk (load_databases catalog_two [])) = mapping_file catalog_two"
    by (simp_all add: no_files_def rock_remover_def load_databases_def catalog_two_def Let_def)
  have s1: "remover_stores rock_remover = [Songs, Playlists, Mapping]"
    by code_simp
  have s2: "remover_stores (load_databases catalog_two []) = [Songs, Playlists, Artists, Mapping]"
    by code_simp
  have u1: "upto_first_failure songs_locked [Songs, Playlists, Mapping] = [Songs]"
    by (simp add: songs_locked_def calm_def)
  have u2: "upto_first_failure artists_locked [Songs, Playlists, Artists, Mapping]
              = [Songs, Playlists, Artists]"
    by (simp add: artists_locked_def calm_def)
  have l1: "list_all (\<lambda>st. \<not> write_fails songs_locked st) [Songs, Playlists, Mapping] = False"
    by (simp add: songs_locked_def calm_def)
  have l2: "list_all (\<lambda>st. \<not> write_fails artists_locked st) [Songs, Playlists, Artists, Mapping]
              = False"
    by (simp add: artists_locked_def calm_def)
  note t1 = saves_attempt_writes [of songs_locked rock_cleanup no_files _ rock_remover]
  note t2 = saves_attempt_writes [of artists_locked _ _ _ "load_databases catalog_two []"]
  note c1 = t1 [THEN conjunct1]
  note r1 = t1 [THEN conjunct2, THEN conjunct2, THEN conjunct1]
  note r2 = t2 [THEN conjunct2, THEN conjunct2, THEN conjunct1]
  have a1: "fst (save_all_databases songs_locked rock_cleanup no_files) = 3"
    using c1 [THEN conjunct2] g by simp
  have a2: "write_attempts (snd (save_all_databases songs_locked rock_cleanup no_files))
     = [Songs, Playlists, Mapping, Artists]"
    using c1 [THEN conjunct1] w0 by simp
  have a3: "fst (save_databases songs_locked rock_remover) = False"
    using r1 [THEN conjunct2, THEN conjunct1] s1 l1 by simp
  have a4: "write_attempts (disk (snd (save_databases songs_locked rock_remover))) = [Songs]"
    using r1 [THEN conjunct1] s1 u1 w0 by simp
  have a5: "fst (save_databases artists_locked (load_databases catalog_two [])) = False"
    using r2 [THEN conjunct2, THEN conjunct1] s2 l2 by simp
  have a6: "write_attempts (disk (snd (save_databases artists_locked (load_databases catalog_two []))))
     = [Songs, Playlists, Artists]"
    using r2 [THEN conjunct1] s2 u2 w0 by simp
  have a7: "mapping_file (disk (snd (save_databases artists_locked (load_databases catalog_two []))))
     = mapping_file catalog_two"
    using r2 [THEN conjunct2, THEN conjunct2, THEN conjunct2, THEN conjunct2, THEN conjunct2]
      s2 u2 w0 by simp
  show ?thesis by (intro conjI a1 a2 a3 a4 a5 a6 a7)
qed

text \<open>
  C5 as stated fails: when the songs file cannot be written, \<^verbatim>\<open>PlaylistRemover.save_databases\<close>
  returns \<^verbatim>\<open>False\<close> having attempted the songs write only.
\<close>

theorem remover_save_stops_counterexample:
  "write_fails songs_locked Songs \<and>
   save_databases songs_locked rock_remover
     = (False,
        rock_remover\<lparr>songs_db := (songs_db rock_remover)\<lparr>sd_last_updated := Some (now calm)\<rparr>,
                      disk := (disk rock_remover)\<lparr>write_attempts := [Songs]\<rparr>\<rparr>)"
  by code_simp

text \<open>
  C8 (as the code has it). When no write fails, the scraper's \<^verbatim>\<open>save_databases\<close> writes the
  songs, playlists and artists of the manager with counters equal to the lengths of these
  collections and with the time of the save; \<^verbatim>\<open>PlaylistRemover.save_databases\<close> does the same
  for its songs and playlists documents, and for its artists document unless that is
  empty. \<^verbatim>\<open>PlaylistSongDownloader.save_databases\<close> writes its three documents as they are held
  in memory.
\<close>

theorem save_recomputes_counters:
  "(all_writes_succeed e \<longrightarrow>
      counts_ok_songs e (songs_file (save_databases_scraper e m fs)) \<and>
      counts_ok_playlists e (playlists_file (save_databases_scraper e m fs)) \<and>
      counts_ok_artists e (artists_file (save_databases_scraper e m fs)) \<and>
      songs_file (save_databases_scraper e m fs) = Some (songs_document e m) \<and>
      sd_songs (songs_document e m) = Some (existing_songs m) \<and>
      playlists_file (save_databases_scraper e m fs) = Some (playlists_document e m) \<and>
      pd_playlists (playlists_document e m) = Some (existing_playlists m) \<and>
      artists_file (save_databases_scraper e m fs) = Some (artists_document e m) \<and>
      ad_artists (artists_document e m) = Some (existing_artists m)) \<and>
   (all_writes_succeed e \<longrightarrow>
      fst (save_databases e r) = True \<and>
      counts_ok_songs e (songs_file (disk (snd (save_databases e r)))) \<and>
      counts_ok_playlists e (playlists_file (disk (snd (save_databases e r)))) \<and>
      (artists_doc_truthy (artists_db r) \<longrightarrow>
         counts_ok_artists e (artists_file (disk (snd (save_databases e r))))) \<and>
      songs_of (songs_db (snd (save_databases e r))) = songs_of (songs_db r) \<and>
      songs_file (disk (snd (save_databases e r))) = Some (songs_db (snd (save_databases e r))) \<and>
      playlists_of (playlists_db (snd (save_databases e r))) = playlists_of (playlists_db r) \<and>
      playlists_file (disk (snd (save_databases e r)))
        = Some (playlists_db (snd (save_databases e r)))) \<and>
   (all_writes_succeed e \<longrightarrow>
      songs_file (snd (save_databases_downloader e d fs)) = Some (dl_songs_db d) \<and>
      playlists_file (snd (save_databases_downloader e d fs)) = Some (dl_playlists_db d) \<and>
      mapping_file (snd (save_databases_downloader e d fs)) = Some (dl_mapping_db d))"
proof (intro conjI impI)
  assume a: "all_writes_succeed e"
  show "counts_ok_songs e (songs_file (save_databases_scraper e m fs))"
    using a by (simp add: all_writes_succeed_def save_databases_scraper_def Let_def
        counts_ok_songs_def songs_document_def songs_of_def)
  show "counts_ok_playlists e (playlists_file (save_databases_scraper e m fs))"
    using a by (simp add: all_writes_succeed_def save_databases_scraper_def Let_def
        counts_ok_playlists_def playlists_document_def playlists_of_def)
  show "counts_ok_artists e (artists_file (save_databases_scraper e m fs))"
    using a by (simp add: all_writes_succeed_def save_databases_scraper_def Let_def
        counts_ok_artists_def artists_document_def artists_of_def)
  show "songs_file (save_databases_scraper e m fs) = Some (songs_document e m)"
    using a by (simp add: all_writes_succeed_def save_databases_scraper_def Let_def)
  show "sd_songs (songs_document e m) = Some (existing_songs m)"
    by (simp add: songs_document_def)
  show "playlists_file (save_databases_scraper e m fs) = Some (playlists_document e m)"
    using a by (simp add: all_writes_succeed_def save_databases_scraper_def Let_def)
  show "pd_playlists (playlists_document e m) = Some (existing_playlists m)"
    by (simp add: playlists_document_def)
  show "artists_file (save_databases_scraper e m fs) = Some (artists_document e m)"
    using a by (simp add: all_writes_succeed_def save_databases_scraper_def Let_def)
  show "ad_artists (artists_document e m) = Some (existing_artists m)"
    by (simp add: artists_document_def)
next
  assume a: "all_writes_succeed e"
  show "fst (save_databases e r) = True"
    using a by (simp add: all_writes_succeed_def save_databases_def Let_def)
  show "counts_ok_songs e (songs_file (disk (snd (save_databases e r))))"
    using a by (simp add: all_writes_succeed_def save_databases_def Let_def
        counts_ok_songs_def songs_of_def)
  show "counts_ok_playlists e (playlists_file (disk (snd (save_databases e r))))"
    using a by (simp add: all_writes_succeed_def save_databases_def Let_def
        counts_ok_playlists_def playlists_of_def)
  show "songs_of (songs_db (snd (save_databases e r))) = songs_of (songs_db r)"
    using a by (simp add: all_writes_succeed_def save_databases_def Let_def songs_of_def)
  show "songs_file (disk (snd (save_databases e r))) = Some (songs_db (snd (save_databases e r)))"
    using a by (simp add: all_writes_succeed_def save_databases_def Let_def)
  show "playlists_of (playlists_db (snd (save_databases e r))) = playlists_of (playlists_db r)"
    using a by (simp add: all_writes_succeed_def save_databases_def Let_def playlists_of_def)
  show "playlists_file (disk (snd (save_databases e r)))
        = Some (playlists_db (snd (save_databases e r)))"
    using a by (simp add: all_writes_succeed_def save_databases_def Let_def)
  {
    assume t: "artists_doc_truthy (artists_db r)"
    show "counts_ok_artists e (artists_file (disk (snd (save_databases e r))))"
      using a t by (simp add: all_writes_succeed_def save_databases_def Let_def
          counts_ok_artists_def artists_of_def)
  }
next
  assume a: "all_writes_succeed e"
  show "songs_file (snd (save_databases_downloader e d fs)) = Some (dl_songs_db d)"
    using a by (simp add: all_writes_succeed_def save_databases_downloader_def
        save_songs_file_def save_playlists_file_def save_mapping_file_def)
  show "playlists_file (snd (save_databases_downloader e d fs)) = Some (dl_playlists_db d)"
    using a by (simp add: all_writes_succeed_def save_databases_downloader_def
        save_songs_file_def save_playlists_file_def save_mapping_file_def)
  show "mapping_file (snd (save_databases_downloader e d fs)) = Some (dl_mapping_db d)"
    using a by (simp add: all_writes_succeed_def save_databases_downloader_def
        save_songs_file_def save_playlists_file_def save_mapping_file_def)
qed


theorem save_recomputes_counters_witness:
  "all_writes_succeed calm \<and>
   songs_file (save_databases_scraper calm one_song_manager no_files)
     = Some \<lparr>sd_songs = Some [(''s1'', song_A [''p1''])], total_songs = Some 1,
             sd_last_updated = Some (now calm)\<rparr> \<and>
   counts_ok_songs calm (songs_file (save_databases_scraper calm one_song_manager no_files)) \<and>
   fst (save_databases calm rock_remover) = True \<and>
   counts_ok_songs calm (songs_file (disk (snd (save_databases calm rock_remover))))"
proof -
  have a: "all_writes_succeed calm" by (simp add: all_writes_succeed_def calm_def)
  have d: "songs_document calm one_song_manager
             = \<lparr>sd_songs = Some [(''s1'', song_A [''p1''])], total_songs = Some 1,
                sd_last_updated = Some (now calm)\<rparr>"
    by (simp add: songs_document_def one_song_manager_def)
  note th = save_recomputes_counters
    [of calm one_song_manager no_files rock_remover stale_downloader]
  note p1 = th [THEN conjunct1, THEN mp, OF a]
  note p2 = th [THEN conjunct2, THEN conjunct1, THEN mp, OF a]
  note c1 = p1 [THEN conjunct1]
  note c2 = p1 [THEN conjunct2, THEN conjunct2, THEN conjunct2, THEN conjunct1]
  note c3 = p2 [THEN conjunct1]
  note c4 = p2 [THEN conjunct2, THEN conjunct1]
  show ?thesis
    by (intro conjI a c1 c3 c4) (simp only: c2 d)
qed

text \<open>
  C8 as stated fails: the downloader's save writes a songs document whose counter is 2 for
  one song and whose \<^verbatim>\<open>last_updated\<close> is the old one, and it writes the empty document of a
  missing songs file without counter or time.
\<close>

theorem downloader_save_keeps_counters_counterexample:
  "all_writes_succeed calm \<and>
   songs_file (snd (save_databases_downloader calm stale_downloader no_files))
     = Some \<lparr>sd_songs = Some [(''s1'', song_A [''p1''])], total_songs = Some 2,
             sd_last_updated = Some ''2024-06-01T00:00:00''\<rparr> \<and>
   \<not> counts_ok_songs calm (songs_file (snd (save_databases_downloader calm stale_downloader no_files))) \<and>
   songs_file (snd (save_databases_downloader calm bare_downloader no_files))
     = Some \<lparr>sd_songs = None, total_songs = None, sd_last_updated = None\<rparr> \<and>
   \<not> counts_ok_songs calm (songs_file (snd (save_databases_downloader calm bare_downloader no_files)))"
  by code_simp


section \<open>Properties of the cascade\<close>

text \<open>
  A save never changes the collections it writes, and the removal proper changes them as
  its four steps say.
\<close>

lemma save_databases_collections:
  "sd_songs (songs_db (snd (save_databases e r))) = sd_songs (songs_db r)"
  "pd_playlists (playlists_db (snd (save_databases e r))) = pd_playlists (playlists_db r)"
  "ad_artists (artists_db (snd (save_databases e r))) = ad_artists (artists_db r)"
  "md_mapping (mapping_db (snd (save_databases e r))) = md_mapping (mapping_db r)"
  "audio_files (disk (snd (save_databases e r))) = audio_files (disk r)"
  "console (snd (save_databases e r)) = console r"
  by (simp_all add: save_databases_def Let_def)

lemma save_databases_success:
  assumes "all_writes_succeed e"
  shows "fst (save_databases e r) = True"
    and "songs_file (disk (snd (save_databases e r))) = Some (songs_db (snd (save_databases e r)))"
    and "playlists_file (disk (snd (save_databases e r)))
           = Some (playlists_db (snd (save_databases e r)))"
    and "mapping_doc_truthy (mapping_db r) \<Longrightarrow>
         mapping_file (disk (snd (save_databases e r))) = Some (mapping_db (snd (save_databases e r)))"
  using assms by (simp_all add: all_writes_succeed_def save_databases_def Let_def)


lemma perform_removal_collections:
  "sd_songs (songs_db (snd (perform_removal e pid rm r)))
     = map_option (delete_keys rm) (sd_songs (songs_db r))"
  "pd_playlists (playlists_db (snd (perform_removal e pid rm r)))
     = map_option (AList.delete pid) (pd_playlists (playlists_db r))"
  "ad_artists (artists_db (snd (perform_removal e pid rm r)))
     = ad_artists (clean_artists_database e pid (artists_db r))"
  "md_mapping (mapping_db (snd (perform_removal e pid rm r)))
     = md_mapping (update_mapping_database rm (mapping_db r))"
  "audio_files (disk (snd (perform_removal e pid rm r)))
     = (if rm \<noteq> [] then fst (remove_songs_from_filesystem e rm (audio_files (disk r)))
        else audio_files (disk r))"
  by (simp_all add: perform_removal_def Let_def save_databases_collections split: option.splits)

lemma perform_removal_success:
  assumes "all_writes_succeed e"
  shows "fst (perform_removal e pid rm r) = True"
    and "songs_file (disk (snd (perform_removal e pid rm r)))
           = Some (songs_db (snd (perform_removal e pid rm r)))"
    and "playlists_file (disk (snd (perform_removal e pid rm r)))
           = Some (playlists_db (snd (perform_removal e pid rm r)))"
    and "mapping_doc_truthy (mapping_db r) \<Longrightarrow>
         mapping_file (disk (snd (perform_removal e pid rm r)))
           = Some (mapping_db (snd (perform_removal e pid rm r)))"
proof -
  show "fst (perform_removal e pid rm r) = True"
    unfolding perform_removal_def Let_def by (rule save_databases_success(1) [OF assms])
  show "songs_file (disk (snd (perform_removal e pid rm r)))
           = Some (songs_db (snd (perform_removal e pid rm r)))"
    unfolding perform_removal_def Let_def by (rule save_databases_success(2) [OF assms])
  show "playlists_file (disk (snd (perform_removal e pid rm r)))
           = Some (playlists_db (snd (perform_removal e pid rm r)))"
    unfolding perform_removal_def Let_def by (rule save_databases_success(3) [OF assms])
  assume t: "mapping_doc_truthy (mapping_db r)"
  have pre: "\<And>r'. mapping_db r' = mapping_db r \<Longrightarrow>
      mapping_doc_truthy
        (mapping_db (r'\<lparr>mapping_db := update_mapping_database rm (mapping_db r')\<rparr>))"
    using t by (simp add: update_mapping_database_def mapping_doc_truthy_def)
  show "mapping_file (disk (snd (perform_removal e pid rm r)))
           = Some (mapping_db (snd (perform_removal e pid rm r)))"
    unfolding perform_removal_def Let_def
    by (rule save_databases_success(4) [OF assms], rule pre) (simp split: option.splits)
qed


lemma calm_succeeds: "all_writes_succeed calm"
  by (simp add: all_writes_succeed_def calm_def)

lemma accepted_yes: "py_lower (py_strip ''yes'') = ''yes''"
  by code_simp

lemma removal_result:
  assumes "fst (perform_removal e pid rm r) = True"
  shows "perform_removal e pid rm r = (True, snd (perform_removal e pid rm r))"
  using assms by (cases "perform_removal e pid rm r") simp

text \<open>
  When the playlist record lists its songs under \<^verbatim>\<open>song_ids\<close>, the cascade deletes a song
  that was in the removed playlist only, with its mapping entry and its audio file.
\<close>

lemma cascade_deletes_listed_orphan:
  "\<exists>r. remove_playlist calm ''Rock'' True rock_remover = Inr (True, r) \<and>
       map_of (playlists_of (playlists_db r)) ''p1'' = None \<and>
       map_of (songs_of (songs_db r)) ''s1'' = None \<and>
       map_of (mapping_of (mapping_db r)) ''s1'' = None \<and>
       audio_files (disk r) = []"
proof -
  let ?sdb = "\<lparr>sd_songs = Some [(''s1'', song_A [])], total_songs = Some 1,
               sd_last_updated = None\<rparr>"
  let ?r1 = "rock_remover\<lparr>songs_db := ?sdb, console := []\<rparr>"
  let ?p = "perform_removal calm ''p1'' [''s1''] ?r1"
  note ok = calm_succeeds
  have f1: "find_playlist_by_name (playlists_db rock_remover) ''Rock'' (console rock_remover)
              = Inr (Some ''p1'', [''yes''])"
    by code_simp
  have f2: "get_songs_in_playlist (playlists_db rock_remover) ''p1'' = [''s1'']"
    by code_simp
  have f3: "remove_playlist_from_songs ''p1'' [''s1''] (songs_db rock_remover)
              = (?sdb, [(''s1'', Remove)])"
    by code_simp
  have res: "remove_playlist calm ''Rock'' True rock_remover = Inr ?p"
    by (simp add: remove_playlist_def f1 f2 f3 accepted_yes Let_def)
  have p: "?p = (True, snd ?p)"
    by (rule removal_result) (rule perform_removal_success(1) [OF ok])
  have g1: "map_of (playlists_of (playlists_db (snd ?p))) ''p1'' = None"
    unfolding playlists_of_def perform_removal_collections by code_simp
  have g2: "map_of (songs_of (songs_db (snd ?p))) ''s1'' = None"
    unfolding songs_of_def perform_removal_collections by code_simp
  have g3: "map_of (mapping_of (mapping_db (snd ?p))) ''s1'' = None"
    unfolding mapping_of_def perform_removal_collections by code_simp
  have g4: "audio_files (disk (snd ?p)) = []"
    unfolding perform_removal_collections by code_simp
  show ?thesis
  proof (intro exI [of _ "snd ?p"] conjI)
    show "remove_playlist calm ''Rock'' True rock_remover = Inr (True, snd ?p)"
      using res p by simp
  qed (rule g1 g2 g3 g4)+
qed

text \<open>
  C1. The cascade misses the member songs of a playlist that the scraper wrote. The
  scraper stores the members under the key \<^verbatim>\<open>songs\<close>; \<^verbatim>\<open>get_songs_in_playlist\<close> reads the key
  \<^verbatim>\<open>song_ids\<close> and finds none. Removing the playlist of the catalog written for track A, with
  the confirmation given, succeeds and deletes the playlist record, but the song is still
  in the songs store with the removed playlist id in its list, its mapping entry and its
  audio file are still there, and this is what the store files now hold.
\<close>

theorem cascade_misses_member_songs:
  "process_artist_tracks md5_sample calm ''X'' ''1'' [track_A []] no_files = Inr catalog_A \<and>
   (\<exists>r. remove_playlist calm ''X - Discography'' True
            (load_databases catalog_A_downloaded [''yes'']) = Inr (True, r) \<and>
        map_of (playlists_of (playlists_db r)) ''artist_1'' = None \<and>
        map_of (songs_of (songs_db r)) ''song_d4bb73c2c32a''
          = Some (stored ''A'' ''X'' [] [''artist_1''] ''pending'') \<and>
        map_of (mapping_of (mapping_db r)) ''song_d4bb73c2c32a'' = Some [''artist_1''] \<and>
        audio_files (disk r) = [''song_d4bb73c2c32a.mp3''] \<and>
        songs_file (disk r) = Some (songs_db r) \<and>
        playlists_file (disk r) = Some (playlists_db r) \<and>
        mapping_file (disk r) = Some (mapping_db r))"
proof
  show "process_artist_tracks md5_sample calm ''X'' ''1'' [track_A []] no_files = Inr catalog_A"
    by (rule scraper_writes_catalog_A)
next
  let ?r0 = "load_databases catalog_A_downloaded [''yes'']"
  let ?r1 = "?r0\<lparr>songs_db := songs_db ?r0, console := []\<rparr>"
  let ?p = "perform_removal calm ''artist_1'' [] ?r1"
  have f1: "find_playlist_by_name (playlists_db ?r0) ''X - Discography'' (console ?r0)
              = Inr (Some ''artist_1'', [''yes''])"
    by code_simp
  have f2: "get_songs_in_playlist (playlists_db ?r0) ''artist_1'' = []"
    by code_simp
  have f3: "remove_playlist_from_songs ''artist_1'' [] (songs_db ?r0) = (songs_db ?r0, [])"
    by code_simp
  have res: "remove_playlist calm ''X - Discography'' True ?r0 = Inr ?p"
    by (simp add: remove_playlist_def f1 f2 f3 accepted_yes Let_def)
  note ok = calm_succeeds
  have p: "?p = (True, snd ?p)"
    by (rule removal_result) (rule perform_removal_success(1) [OF ok])
  have m0: "mapping_doc_truthy (mapping_db ?r1)" by code_simp
  have g1: "map_of (playlists_of (playlists_db (snd ?p))) ''artist_1'' = None"
    unfolding playlists_of_def perform_removal_collections by code_simp
  have g2: "map_of (songs_of (songs_db (snd ?p))) ''song_d4bb73c2c32a''
          = Some (stored ''A'' ''X'' [] [''artist_1''] ''pending'')"
    unfolding songs_of_def perform_removal_collections by code_simp
  have g3: "map_of (mapping_of (mapping_db (snd ?p))) ''song_d4bb73c2c32a'' = Some [''artist_1'']"
    unfolding mapping_of_def perform_removal_collections by code_simp
  have g4: "audio_files (disk (snd ?p)) = [''song_d4bb73c2c32a.mp3'']"
    unfolding perform_removal_collections by code_simp
  show "\<exists>r. remove_playlist calm ''X - Discography'' True ?r0 = Inr (True, r) \<and>
        map_of (playlists_of (playlists_db r)) ''artist_1'' = None \<and>
        map_of (songs_of (songs_db r)) ''song_d4bb73c2c32a''
          = Some (stored ''A'' ''X'' [] [''artist_1''] ''pending'') \<and>
        map_of (mapping_of (mapping_db r)) ''song_d4bb73c2c32a'' = Some [''artist_1''] \<and>
        audio_files (disk r) = [''song_d4bb73c2c32a.mp3''] \<and>
        songs_file (disk r) = Some (songs_db r) \<and>
        playlists_file (disk r) = Some (playlists_db r) \<and>
        mapping_file (disk r) = Some (mapping_db r)"
  proof (intro exI [of _ "snd ?p"] conjI)
    show "remove_playlist calm ''X - Discography'' True ?r0 = Inr (True, snd ?p)"
      using res p by simp
  qed (rule g1 g2 g3 g4 perform_removal_success(2) [OF ok] perform_removal_success(3) [OF ok]
        perform_removal_success(4) [OF ok m0])+
qed



text \<open>
  C2. After a cascade the mapping view differs from the songs. Song \<^verbatim>\<open>s1\<close> is in Rock and
  Jazz; after Rock is removed the song lists Jazz only while its mapping entry still lists
  both, in memory and in the files written. And after the cascade on the catalog written
  by the scraper, the song still holds the id of the playlist that no longer exists.
\<close>

theorem cascade_leaves_mapping_stale:
  "(\<exists>r. remove_playlist calm ''Rock'' False (load_databases catalog_two []) = Inr (True, r) \<and>
        map_option song_playlists (map_of (songs_of (songs_db r)) ''s1'') = Some [''p2''] \<and>
        map_of (mapping_of (mapping_db r)) ''s1'' = Some [''p1'', ''p2''] \<and>
        songs_file (disk r) = Some (songs_db r) \<and>
        mapping_file (disk r) = Some (mapping_db r)) \<and>
   (\<exists>r. remove_playlist calm ''X - Discography'' False
            (load_databases catalog_A_downloaded []) = Inr (True, r) \<and>
        map_option song_playlists (map_of (songs_of (songs_db r)) ''song_d4bb73c2c32a'')
          = Some [''artist_1''] \<and>
        map_of (playlists_of (playlists_db r)) ''artist_1'' = None \<and>
        songs_file (disk r) = Some (songs_db r) \<and>
        playlists_file (disk r) = Some (playlists_db r))"
proof
  let ?r0 = "load_databases catalog_two []"
  let ?sdb = "\<lparr>sd_songs = Some [(''s1'', song_A [''p2''])], total_songs = Some 1,
               sd_last_updated = None\<rparr>"
  let ?r1 = "?r0\<lparr>songs_db := ?sdb, console := []\<rparr>"
  let ?p = "perform_removal calm ''p1'' [] ?r1"
  note ok = calm_succeeds
  have f1: "find_playlist_by_name (playlists_db ?r0) ''Rock'' (console ?r0) = Inr (Some ''p1'', [])"
    by code_simp
  have f2: "get_songs_in_playlist (playlists_db ?r0) ''p1'' = [''s1'']"
    by code_simp
  have f3: "remove_playlist_from_songs ''p1'' [''s1''] (songs_db ?r0) = (?sdb, [(''s1'', Keep)])"
    by code_simp
  have res: "remove_playlist calm ''Rock'' False ?r0 = Inr ?p"
    by (simp add: remove_playlist_def f1 f2 f3 Let_def)
  have p: "?p = (True, snd ?p)"
    by (rule removal_result) (rule perform_removal_success(1) [OF ok])
  have m0: "mapping_doc_truthy (mapping_db ?r1)" by code_simp
  have g1: "map_option song_playlists (map_of (songs_of (songs_db (snd ?p))) ''s1'') = Some [''p2'']"
    unfolding songs_of_def perform_removal_collections by code_simp
  have g2: "map_of (mapping_of (mapping_db (snd ?p))) ''s1'' = Some [''p1'', ''p2'']"
    unfolding mapping_of_def perform_removal_collections by code_simp
  show "\<exists>r. remove_playlist calm ''Rock'' False ?r0 = Inr (True, r) \<and>
        map_option song_playlists (map_of (songs_of (songs_db r)) ''s1'') = Some [''p2''] \<and>
        map_of (mapping_of (mapping_db r)) ''s1'' = Some [''p1'', ''p2''] \<and>
        songs_file (disk r) = Some (songs_db r) \<and>
        mapping_file (disk r) = Some (mapping_db r)"
  proof (intro exI [of _ "snd ?p"] conjI)
    show "remove_playlist calm ''Rock'' False ?r0 = Inr (True, snd ?p)"
      using res p by simp
  qed (rule g1 g2 perform_removal_success(2) [OF ok] perform_removal_success(4) [OF ok m0])+
next
  let ?r0 = "load_databases catalog_A_downloaded []"
  let ?r1 = "?r0\<lparr>songs_db := songs_db ?r0, console := []\<rparr>"
  let ?p = "perform_removal calm ''artist_1'' [] ?r1"
  note ok = calm_succeeds
  have f1: "find_playlist_by_name (playlists_db ?r0) ''X - Discography'' (console ?r0)
              = Inr (Some ''artist_1'', [])"
    by code_simp
  have f2: "get_songs_in_playlist (playlists_db ?r0) ''artist_1'' = []"
    by code_simp
  have f3: "remove_playlist_from_songs ''artist_1'' [] (songs_db ?r0) = (songs_db ?r0, [])"
    by code_simp
  have res: "remove_playlist calm ''X - Discography'' False ?r0 = Inr ?p"
    by (simp add: remove_playlist_def f1 f2 f3 Let_def)
  have p: "?p = (True, snd ?p)"
    by (rule removal_result) (rule perform_removal_success(1) [OF ok])
  have g1: "map_option song_playlists (map_of (songs_of (songs_db (snd ?p))) ''song_d4bb73c2c32a'')
          = Some [''artist_1'']"
    unfolding songs_of_def perform_removal_collections by code_simp
  have g2: "map_of (playlists_of (playlists_db (snd ?p))) ''artist_1'' = None"
    unfolding playlists_of_def perform_removal_collections by code_simp
  show "\<exists>r. remove_playlist calm ''X - Discography'' False ?r0 = Inr (True, r) \<and>
        map_option song_playlists (map_of (songs_of (songs_db r)) ''song_d4bb73c2c32a'')
          = Some [''artist_1''] \<and>
        map_of (playlists_of (playlists_db r)) ''artist_1'' = None \<and>
        songs_file (disk r) = Some (songs_db r) \<and>
        playlists_file (disk r) = Some (playlists_db r)"
  proof (intro exI [of _ "snd ?p"] conjI)
    show "remove_playlist calm ''X - Discography'' False ?r0 = Inr (True, snd ?p)"
      using res p by simp
  qed (rule g1 g2 perform_removal_success(2) [OF ok] perform_removal_success(3) [OF ok])+
qed



text \<open>
  C3. A declined removal has already changed the songs. With the answer \<^verbatim>\<open>no\<close> at the
  confirmation, \<^verbatim>\<open>remove_playlist\<close> returns \<^verbatim>\<open>False\<close> and the files are untouched, but the
  song that listed Rock and Jazz lists Jazz only in the in-memory songs store, while the
  playlist Rock is still there.
\<close>

theorem declined_removal_mutates_songs:
  "\<exists>r. remove_playlist calm ''Rock'' True (load_databases catalog_two [''no'']) = Inr (False, r) \<and>
       map_of (songs_of (songs_db (load_databases catalog_two [''no'']))) ''s1''
         = Some (song_A [''p1'', ''p2'']) \<and>
       map_of (songs_of (songs_db r)) ''s1'' = Some (song_A [''p2'']) \<and>
       map_of (playlists_of (playlists_db r)) ''p1'' = Some (playlist_named ''Rock'' [''s1'']) \<and>
       disk r = catalog_two"
proof -
  let ?r0 = "load_databases catalog_two [''no'']"
  let ?sdb = "\<lparr>sd_songs = Some [(''s1'', song_A [''p2''])], total_songs = Some 1,
               sd_last_updated = None\<rparr>"
  let ?r1 = "?r0\<lparr>songs_db := ?sdb, console := []\<rparr>"
  have f1: "find_playlist_by_name (playlists_db ?r0) ''Rock'' (console ?r0)
              = Inr (Some ''p1'', [''no''])"
    by code_simp
  have f2: "get_songs_in_playlist (playlists_db ?r0) ''p1'' = [''s1'']"
    by code_simp
  have f3: "remove_playlist_from_songs ''p1'' [''s1''] (songs_db ?r0) = (?sdb, [(''s1'', Keep)])"
    by code_simp
  have f4: "py_lower (py_strip ''no'') = ''no''"
    by code_simp
  have res: "remove_playlist calm ''Rock'' True ?r0 = Inr (False, ?r1)"
    by (simp add: remove_playlist_def f1 f2 f3 f4 Let_def)
  have g0: "map_of (songs_of (songs_db ?r0)) ''s1'' = Some (song_A [''p1'', ''p2''])"
    by code_simp
  have g1: "map_of (songs_of (songs_db ?r1)) ''s1'' = Some (song_A [''p2''])"
    by (simp add: songs_of_def)
  have g2: "map_of (playlists_of (playlists_db ?r1)) ''p1'' = Some (playlist_named ''Rock'' [''s1''])"
    by code_simp
  have g3: "disk ?r1 = catalog_two"
    by (simp add: load_databases_def Let_def split: option.splits)
  show ?thesis
    by (intro exI [of _ ?r1] conjI res g0 g1 g2 g3)
qed


end
